theory Spec2Isabelle
  imports Complex_Main
begin

section \<open>Arrays, errors and warnings\<close>

text \<open>
  The estimation routines of \<^verbatim>\<open>TOTALVI\<close> (file \<^verbatim>\<open>src/scvi/model/_totalvi.py\<close>) work on
  floating-point arrays. The embedding takes the entries as real numbers (rounding is not
  modelled) and the arrays as nested lists: a vector of features, a matrix of cells by
  features, and a three-dimensional array as the list of its slices along the first axis.
\<close>

type_synonym vec = "real list"
type_synonym mat = "real list list"
type_synonym ten = "real list list list"

datatype ndarray = A2 mat | A3 ten

datatype error =
    ValueError string
  | RuntimeError string
  | IndexError string
  | TypeError string
  | WarningAsError string

datatype warning = UserWarning string

text \<open>
  A routine either raises (\<open>Inl\<close>) or returns its value with the warnings it emitted.
\<close>

type_synonym 'a result = "error + ('a \<times> warning list)"

subsection \<open>Minibatches and the module's outputs\<close>

record tensors =
  X_KEY :: mat
  PROTEIN_EXP_KEY :: mat

text \<open>
  A call of the module draws posterior samples; the draws of one call are keyed by the
  position of the call: the index of the minibatch in the loader and the position of the
  transform batch in the list.
\<close>

type_synonym key = "nat \<times> nat"

record normal_dist =
  loc :: vec
  scale :: vec

record inference_outputs =
  ql :: normal_dist
  library_gene :: vec

datatype dispersion = R1 vec | R2 mat

text \<open>
  The arrays of the generative outputs are held as the list of their per-sample
  slices (each of cells by features): \<open>n_samples\<close> slices when \<open>n_samples > 1\<close>, and the
  single two-dimensional array itself otherwise. That shape is the module's contract;
  theorems that depend on it state it as a hypothesis.
\<close>

record px_params =
  px_rate :: ten
  px_scale :: ten
  px_r :: dispersion

record py_params =
  py_mixing :: ten
  py_rate_fore :: ten
  py_rate_back :: ten
  py_r :: dispersion

text \<open>
  The fields \<open>gen_px\<close> and \<open>gen_py\<close> are the entries \<^verbatim>\<open>generative_outputs["px_"]\<close> and
  \<^verbatim>\<open>generative_outputs["py_"]\<close> of the source.
\<close>

record generative_outputs =
  gen_px :: px_params
  gen_py :: py_params

subsection \<open>The annotated data and the arguments of a call\<close>

record dataframe =
  frame_values :: mat
  frame_columns :: "string list"
  frame_index :: "string list"

text \<open>
  What a routine hands back: a labelled table or an array. The reals have no NaN, so a
  table or an array whose every entry is NaN is the marked value \<open>NaNs r\<close>: it has the
  shape and the labels of \<open>r\<close>, and the entries of \<open>r\<close> stand for NaN.
\<close>

datatype returned = Frame dataframe | Array ndarray | NaNs returned

datatype adata_kind = AnnData | MuData

record adata =
  kind :: adata_kind
  obs_names :: "string list"
  var_names :: "string list"

datatype category = CatNone | CatNum int | CatStr string

text \<open>
  \<open>transform_batch\<close> is either one value (\<open>None\<close>, a number or a category name) or a
  list of values.
\<close>

datatype transform_batch_arg = Single category | Many "category list"

datatype library_size_arg = Latent | FixedSize real | NoSize

text \<open>The keyword arguments of the estimation routines; each routine reads its own.\<close>

record kwargs =
  adata_arg :: "adata option"
  indices :: "nat list option"
  n_samples_overall :: "nat option"
  transform_batch :: transform_batch_arg
  gene_list :: "string list option"
  protein_list :: "string list option"
  library_size :: library_size_arg
  n_samples :: nat
  sample_protein_mixing :: bool
  scale_protein :: bool
  include_protein_background :: bool
  batch_size :: "nat option"
  return_mean :: bool
  return_numpy :: "bool option"
  give_mean :: bool
  protein_prior_count :: "real option"
  use_field :: "string list option"
  rna_size_factor :: real
  correlation_pearson :: bool
  log_transform :: bool

text \<open>
  The model object \<^verbatim>\<open>self\<close> with its collaborators, which live outside this file: the
  module (\<open>inference\<close>, \<open>forward\<close>, \<open>sample\<close>), the base class (\<open>_check_if_trained\<close>, the
  inherited \<open>_validate_anndata\<close>, \<open>_make_data_loader\<close>), the registry, the helper
  \<open>_get_batch_code_from_category\<close>, the random generator and the correlation routines of
  numpy and scipy. They are taken as they are, as functions. The registry holds the
  protein column names either as a numpy array, which a list of booleans can index, or as
  a plain Python sequence (a list or a tuple), which it cannot: \<open>column_names_is_array\<close>
  tells which.
\<close>

record totalvi =
  gene_likelihood :: string
  check_if_trained :: "error option"
  super_validate_anndata :: "adata option \<Rightarrow> error + adata"
  has_protein_registry :: bool
  summary_n_proteins :: nat
  registry_n_proteins :: "adata \<Rightarrow> nat"
  check_nonnegative_integers :: "adata \<Rightarrow> bool"
  make_data_loader :: "adata \<Rightarrow> nat list option \<Rightarrow> nat option \<Rightarrow> tensors list"
  module_inference :: "nat \<Rightarrow> tensors \<Rightarrow> inference_outputs"
  module_forward :: "key \<Rightarrow> tensors \<Rightarrow> nat \<Rightarrow> nat option \<Rightarrow> generative_outputs"
  module_sample :: "nat \<Rightarrow> tensors \<Rightarrow> nat \<Rightarrow> ten \<times> ten"
  get_batch_code_from_category :: "adata \<Rightarrow> transform_batch_arg \<Rightarrow> error + nat option list"
  self_adata :: adata
  protein_column_names :: "string list"
  column_names_is_array :: bool
  random_choice :: "nat list \<Rightarrow> nat \<Rightarrow> nat list"
  uniform_draws :: "key \<Rightarrow> nat \<Rightarrow> nat \<Rightarrow> nat \<Rightarrow> real"
  gamma_draws :: "key \<Rightarrow> nat \<Rightarrow> mat \<Rightarrow> mat \<Rightarrow> mat"
  n_genes :: nat
  corrcoef :: "mat \<Rightarrow> mat"
  spearmanr :: "mat \<Rightarrow> mat"
  modalities :: "(string \<times> string) option"
  de_core :: "(nat list option \<Rightarrow> transform_batch_arg \<Rightarrow> error + returned \<times> warning list) \<Rightarrow> string list \<Rightarrow> error + dataframe"

section \<open>Validation\<close>

text \<open>
  \<^verbatim>\<open>_validate_anndata\<close>: the inherited validation, then the protein registration must
  exist and the number of proteins must be the registered one; data that are not counts
  only give a warning.
\<close>

definition validate_anndata :: "totalvi \<Rightarrow> adata option \<Rightarrow> adata result" where
  "validate_anndata self ad =
     (case super_validate_anndata self ad of
        Inl e \<Rightarrow> Inl e
      | Inr a \<Rightarrow>
          if has_protein_registry self then
            if summary_n_proteins self \<noteq> registry_n_proteins self a then
              Inl (ValueError ''Number of proteins in anndata different from when setup_anndata was run. Please rerun setup_anndata.'')
            else if \<not> check_nonnegative_integers self a then
              Inr (a, [UserWarning ''Make sure the registered protein expression in anndata contains unnormalized count data.''])
            else Inr (a, [])
          else Inl (ValueError ''No protein data found, please setup or transfer anndata''))"

section \<open>Latent library size\<close>

text \<open>
  \<^verbatim>\<open>get_latent_library_size\<close>: one inference call per minibatch; the mean of the log-normal
  library posterior or the sampled library, concatenated in loader order.
\<close>

definition library_of :: "bool \<Rightarrow> inference_outputs \<Rightarrow> vec" where
  "library_of gm outputs =
     (if gm then map2 (\<lambda>l s. exp (l + 0.5 * s\<^sup>2)) (loc (ql outputs)) (scale (ql outputs))
      else library_gene outputs)"

definition get_latent_library_size :: "totalvi \<Rightarrow> kwargs \<Rightarrow> vec result" where
  "get_latent_library_size self kw =
     (case check_if_trained self of
        Some e \<Rightarrow> Inl e
      | None \<Rightarrow>
         (case validate_anndata self (adata_arg kw) of
            Inl e \<Rightarrow> Inl e
          | Inr (ad, ws) \<Rightarrow>
              (let post = make_data_loader self ad (indices kw) (batch_size kw);
                   libraries = map (\<lambda>(k, t). library_of (give_mean kw) (module_inference self k t))
                                 (enumerate 0 post)
               in if libraries = [] then Inl (RuntimeError ''torch.cat(): expected a non-empty list of Tensors'')
                  else Inr (concat libraries, ws))))"

section \<open>Array operations\<close>

text \<open>
  A feature selection along the last axis: \<^verbatim>\<open>slice(None)\<close> keeps every column, a boolean
  list keeps the columns marked True. The boolean lists are built from the registered
  names, so they are as long as the rows they select from.
\<close>

datatype mask = SliceAll | BoolMask "bool list"

fun select :: "mask \<Rightarrow> 'a list \<Rightarrow> 'a list" where
  "select SliceAll v = v"
| "select (BoolMask bs) v = map snd (filter fst (zip bs v))"

definition name_mask :: "string list option \<Rightarrow> string list \<Rightarrow> mask" where
  "name_mask wanted all_names =
     (case wanted of
        None \<Rightarrow> SliceAll
      | Some l \<Rightarrow> BoolMask (map (\<lambda>g. g \<in> set l) all_names))"

definition tmap :: "(real \<Rightarrow> real) \<Rightarrow> ten \<Rightarrow> ten" where
  "tmap f t = map (map (map f)) t"

definition tmap2 :: "(real \<Rightarrow> real \<Rightarrow> real) \<Rightarrow> ten \<Rightarrow> ten \<Rightarrow> ten" where
  "tmap2 f a b = map2 (map2 (map2 f)) a b"

definition last_axis :: "(vec \<Rightarrow> vec) \<Rightarrow> ten \<Rightarrow> ten" where
  "last_axis f t = map (map f) t"

definition zeros_like :: "mat \<Rightarrow> mat" where
  "zeros_like m = map (map (\<lambda>_. 0)) m"

definition ncols :: "mat \<Rightarrow> nat" where
  "ncols m = (case m of [] \<Rightarrow> 0 | r # _ \<Rightarrow> length r)"

text \<open>
  \<^verbatim>\<open>torch.stack(n_samples * [a])\<close> when \<open>n_samples > 1\<close>; otherwise the array stays
  two-dimensional, which is its own single slice.
\<close>

definition stack :: "nat \<Rightarrow> mat \<Rightarrow> ten" where
  "stack n m = replicate (if n > 1 then n else 1) m"

definition sigmoid :: "real \<Rightarrow> real" where
  "sigmoid x = 1 / (1 + exp (- x))"

text \<open>
  \<^verbatim>\<open>torch.distributions.Bernoulli(p).sample()\<close>: every entry is drawn on its own, 1 when
  the generator's uniform draw for that entry is below the probability and 0 otherwise.
\<close>

definition bernoulli_sample :: "(nat \<Rightarrow> nat \<Rightarrow> nat \<Rightarrow> real) \<Rightarrow> ten \<Rightarrow> ten" where
  "bernoulli_sample u probs =
     map (\<lambda>(s, m). map (\<lambda>(i, r). map (\<lambda>(j, p). if u s i j < p then 1 else 0) (enumerate 0 r))
                      (enumerate 0 m))
         (enumerate 0 probs)"

text \<open>
  \<^verbatim>\<open>torch.nn.functional.normalize(v, p=1, dim=-1)\<close>, as torch documents it: every entry
  divided by the larger of the vector's 1-norm and \<open>eps = 1e-12\<close>.
\<close>

definition normalize_l1 :: "vec \<Rightarrow> vec" where
  "normalize_l1 v = map (\<lambda>x. x / max (sum_list (map abs v)) (1 / 10 ^ 12)) v"

text \<open>
  \<^verbatim>\<open>torch.cat(list, dim=1)\<close> of arrays of samples by cells by features: slice by slice, the
  cells of the minibatches one after the other.
\<close>

definition cat_dim1 :: "nat \<Rightarrow> ten list \<Rightarrow> ten" where
  "cat_dim1 n accs = foldr (map2 (@)) accs (replicate n [])"

text \<open>\<^verbatim>\<open>permute(1, 2, 0)\<close>: samples by cells by features becomes cells by features by samples.\<close>

definition permute_1_2_0 :: "ten \<Rightarrow> ten" where
  "permute_1_2_0 t = map transpose (transpose t)"

definition mean_last :: "ten \<Rightarrow> mat" where
  "mean_last t = map (map (\<lambda>v. sum_list v / real (length v))) t"

text \<open>
  The end of a routine: concatenate the minibatches; with several samples move the
  sample axis last and, when asked, average over it.
\<close>

definition assemble :: "nat \<Rightarrow> bool \<Rightarrow> ten list \<Rightarrow> ndarray" where
  "assemble n rm accs =
     (if n > 1 then
        (let t = permute_1_2_0 (cat_dim1 n accs)
         in if rm then A2 (mean_last t) else A3 t)
      else A2 (concat (map concat accs)))"

fun amap :: "(real \<Rightarrow> real) \<Rightarrow> ndarray \<Rightarrow> ndarray" where
  "amap f (A2 m) = A2 (map (map f) m)"
| "amap f (A3 t) = A3 (map (map (map f)) t)"

subsection \<open>Labelled tables\<close>

text \<open>
  \<^verbatim>\<open>pd.DataFrame(a, columns=..., index=adata.obs_names[indices])\<close>: the row labels are read
  at the requested positions, and pandas takes a two-dimensional array only.
\<close>

definition obs_names_at :: "adata \<Rightarrow> nat list \<Rightarrow> error + string list" where
  "obs_names_at ad idx =
     (if list_all (\<lambda>i. i < length (obs_names ad)) idx then Inr (map (\<lambda>i. obs_names ad ! i) idx)
      else Inl (IndexError ''index is out of bounds''))"

definition data_frame :: "ndarray \<Rightarrow> string list \<Rightarrow> string list \<Rightarrow> error + returned" where
  "data_frame a cols idx =
     (case a of
        A2 m \<Rightarrow> Inr (Frame \<lparr>frame_values = m, frame_columns = cols, frame_index = idx\<rparr>)
      | A3 t \<Rightarrow> Inl (ValueError ''Must pass 2-d input''))"

text \<open>
  \<^verbatim>\<open>column_names[protein_mask]\<close>, the column labels of a protein table: \<^verbatim>\<open>slice(None)\<close> indexes
  any sequence; a list of booleans indexes a numpy array and is a \<open>TypeError\<close> on a list
  or a tuple.
\<close>

definition index_names :: "bool \<Rightarrow> string list \<Rightarrow> mask \<Rightarrow> error + string list" where
  "index_names is_array names m =
     (case m of
        SliceAll \<Rightarrow> Inr names
      | BoolMask bs \<Rightarrow>
          if is_array then Inr (select (BoolMask bs) names)
          else Inl (TypeError ''indices must be integers or slices, not list''))"

text \<open>
  The accumulators start at zero and are divided by \<^verbatim>\<open>len(transform_batch)\<close>. For an empty
  list no term is added and the division is 0/0 in every entry: the routine goes on and
  returns its arrays or tables as usual, filled with NaN.
\<close>

definition nan_if_empty :: "nat option list \<Rightarrow> returned \<Rightarrow> returned" where
  "nan_if_empty tb r = (if tb = [] then NaNs r else r)"

section \<open>Normalized expression\<close>

text \<open>
  \<^verbatim>\<open>isinstance(transform_batch, IterableClass)\<close>: a list is iterable, and so is a Python
  string; \<open>None\<close> and a number are not, and they alone are wrapped into a one-element list
  here. The result goes to the helper \<^verbatim>\<open>_get_batch_code_from_category\<close>.
\<close>

fun is_iterable :: "transform_batch_arg \<Rightarrow> bool" where
  "is_iterable (Single (CatStr s)) = True"
| "is_iterable (Single CatNone) = False"
| "is_iterable (Single (CatNum n)) = False"
| "is_iterable (Many cs) = True"

fun as_list :: "transform_batch_arg \<Rightarrow> transform_batch_arg" where
  "as_list (Single c) = (if \<not> is_iterable (Single c) then Many [c] else Single c)"
| "as_list (Many cs) = Many cs"

text \<open>
  One transform batch of one minibatch (the body of the inner loop): the mixing
  probability is the sigmoid of the mixing logit, optionally replaced by a Bernoulli draw;
  the foreground rate is weighted by its complement, the background rate optionally added
  with the mixing weight; the value is optionally normalized over all proteins, and only
  then restricted to the requested proteins.
\<close>

definition protein_value :: "totalvi \<Rightarrow> kwargs \<Rightarrow> mask \<Rightarrow> key \<Rightarrow> py_params \<Rightarrow> ten" where
  "protein_value self kw protein_mask ky py =
     (let protein_mixing = tmap (\<lambda>x. 1 / (1 + exp (- x))) (py_mixing py);
          protein_mixing = (if sample_protein_mixing kw
                            then bernoulli_sample (uniform_draws self ky) protein_mixing
                            else protein_mixing);
          protein_val = tmap2 (\<lambda>f m. f * (1 - m)) (py_rate_fore py) protein_mixing;
          protein_val = (if include_protein_background kw
                         then tmap2 (+) protein_val (tmap2 (*) (py_rate_back py) protein_mixing)
                         else protein_val);
          protein_val = (if scale_protein kw then last_axis normalize_l1 protein_val
                         else protein_val)
      in last_axis (select protein_mask) protein_val)"

definition gene_value :: "kwargs \<Rightarrow> mask \<Rightarrow> px_params \<Rightarrow> ten" where
  "gene_value kw gene_mask px =
     last_axis (select gene_mask) (if library_size kw = Latent then px_rate px else px_scale px)"

text \<open>
  The loop over the transform batches of one minibatch. The source updates the two
  accumulators \<open>px_scale\<close> and \<open>py_scale\<close> in one loop, from one call of the module per
  transform batch; they do not depend on each other, so each has its own fold here, over
  the same calls. The accumulators are divided by the number of transform batches.
\<close>

definition py_scale_sum :: "totalvi \<Rightarrow> kwargs \<Rightarrow> mask \<Rightarrow> nat \<Rightarrow> tensors \<Rightarrow> (nat \<times> nat option) list \<Rightarrow> ten \<Rightarrow> ten" where
  "py_scale_sum self kw protein_mask k t pbs acc =
     fold (\<lambda>(p, b) py_scale.
             tmap2 (+) py_scale
               (protein_value self kw protein_mask (k, p)
                  (gen_py (module_forward self (k, p) t (n_samples kw) b))))
          pbs acc"

definition px_scale_sum :: "totalvi \<Rightarrow> kwargs \<Rightarrow> mask \<Rightarrow> nat \<Rightarrow> tensors \<Rightarrow> (nat \<times> nat option) list \<Rightarrow> ten \<Rightarrow> ten" where
  "px_scale_sum self kw gene_mask k t pbs acc =
     fold (\<lambda>(p, b) px_scale.
             tmap2 (+) px_scale
               (gene_value kw gene_mask (gen_px (module_forward self (k, p) t (n_samples kw) b))))
          pbs acc"

definition py_scale_minibatch :: "totalvi \<Rightarrow> kwargs \<Rightarrow> mask \<Rightarrow> nat option list \<Rightarrow> nat \<Rightarrow> tensors \<Rightarrow> ten" where
  "py_scale_minibatch self kw protein_mask tb k t =
     (let py_scale = stack (n_samples kw) (map (select protein_mask) (zeros_like (PROTEIN_EXP_KEY t)));
          py_scale = py_scale_sum self kw protein_mask k t (enumerate 0 tb) py_scale
      in tmap (\<lambda>x. x / real (length tb)) py_scale)"

definition px_scale_minibatch :: "totalvi \<Rightarrow> kwargs \<Rightarrow> mask \<Rightarrow> nat option list \<Rightarrow> nat \<Rightarrow> tensors \<Rightarrow> ten" where
  "px_scale_minibatch self kw gene_mask tb k t =
     (let px_scale = stack (n_samples kw) (map (select gene_mask) (zeros_like (X_KEY t)));
          px_scale = px_scale_sum self kw gene_mask k t (enumerate 0 tb) px_scale
      in tmap (\<lambda>x. x / real (length tb)) px_scale)"

text \<open>
  Several samples without the mean force an array: \<open>return_numpy\<close> becomes True, with a
  warning when the caller had asked for False.
\<close>

definition forced_numpy :: "kwargs \<Rightarrow> bool" where
  "forced_numpy kw = (n_samples kw > 1 \<and> return_mean kw = False)"

definition numpy_warning :: "kwargs \<Rightarrow> warning list" where
  "numpy_warning kw =
     (if forced_numpy kw \<and> return_numpy kw = Some False
      then [UserWarning ''`return_numpy` must be `True` if `n_samples > 1` and `return_mean` is `False`, returning an `np.ndarray`.'']
      else [])"

definition effective_return_numpy :: "kwargs \<Rightarrow> bool option" where
  "effective_return_numpy kw = (if forced_numpy kw then Some True else return_numpy kw)"

definition get_normalized_expression :: "totalvi \<Rightarrow> kwargs \<Rightarrow> (returned \<times> returned) result" where
  "get_normalized_expression self kw =
     (case validate_anndata self (adata_arg kw) of
        Inl e \<Rightarrow> Inl e
      | Inr (ad, ws) \<Rightarrow>
         (let idx = (case indices kw of None \<Rightarrow> [0..<length (obs_names ad)] | Some l \<Rightarrow> l);
              idx = (case n_samples_overall kw of None \<Rightarrow> idx | Some n \<Rightarrow> random_choice self idx n);
              post = make_data_loader self ad (Some idx) (batch_size kw);
              gene_mask = name_mask (gene_list kw) (var_names ad);
              protein_mask = name_mask (protein_list kw) (protein_column_names self);
              ws = ws @ numpy_warning kw;
              return_numpy = effective_return_numpy kw
          in case get_batch_code_from_category self ad (as_list (transform_batch kw)) of
               Inl e \<Rightarrow> Inl e
             | Inr tb \<Rightarrow>
                (let scale_list_gene = map (\<lambda>(k, t). px_scale_minibatch self kw gene_mask tb k t) (enumerate 0 post);
                     scale_list_pro = map (\<lambda>(k, t). py_scale_minibatch self kw protein_mask tb k t) (enumerate 0 post)
                 in if post = [] then Inl (RuntimeError ''torch.cat(): expected a non-empty list of Tensors'')
                    else
                      (let genes = assemble (n_samples kw) (return_mean kw) scale_list_gene;
                           pros = assemble (n_samples kw) (return_mean kw) scale_list_pro
                       in if return_numpy = None \<or> return_numpy = Some False then
                            (case obs_names_at ad idx of
                               Inl e \<Rightarrow> Inl e
                             | Inr names \<Rightarrow>
                                (case data_frame genes (select gene_mask (var_names ad)) names of
                                   Inl e \<Rightarrow> Inl e
                                 | Inr gene_df \<Rightarrow>
                                    (case index_names (column_names_is_array self)
                                            (protein_column_names self) protein_mask of
                                       Inl e \<Rightarrow> Inl e
                                     | Inr protein_names \<Rightarrow>
                                        (case data_frame pros protein_names names of
                                           Inl e \<Rightarrow> Inl e
                                         | Inr pro_df \<Rightarrow>
                                             Inr ((nan_if_empty tb gene_df, nan_if_empty tb pro_df), ws)))))
                          else Inr ((nan_if_empty tb (Array genes), nan_if_empty tb (Array pros)), ws)))))"

section \<open>Protein foreground probability\<close>

text \<open>
  \<^verbatim>\<open>get_protein_foreground_probability\<close>: the sigmoid of the mixing logit, restricted to
  the requested proteins, averaged over the transform batches in the same way; the result
  is its complement. The loader gets the caller's \<open>indices\<close> as they are, and the helper
  the model's own registry.
\<close>

definition py_mixing_sum :: "totalvi \<Rightarrow> kwargs \<Rightarrow> mask \<Rightarrow> nat \<Rightarrow> tensors \<Rightarrow> (nat \<times> nat option) list \<Rightarrow> ten \<Rightarrow> ten" where
  "py_mixing_sum self kw protein_mask k t pbs acc =
     fold (\<lambda>(p, b) py_mixing_acc.
             tmap2 (+) py_mixing_acc
               (last_axis (select protein_mask)
                  (tmap sigmoid (py_mixing (gen_py (module_forward self (k, p) t (n_samples kw) b))))))
          pbs acc"

definition py_mixing_minibatch :: "totalvi \<Rightarrow> kwargs \<Rightarrow> mask \<Rightarrow> nat option list \<Rightarrow> nat \<Rightarrow> tensors \<Rightarrow> ten" where
  "py_mixing_minibatch self kw protein_mask tb k t =
     (let py_mixing_acc = stack (n_samples kw) (zeros_like (map (select protein_mask) (PROTEIN_EXP_KEY t)));
          py_mixing_acc = py_mixing_sum self kw protein_mask k t (enumerate 0 tb) py_mixing_acc
      in tmap (\<lambda>x. x / real (length tb)) py_mixing_acc)"

definition get_protein_foreground_probability :: "totalvi \<Rightarrow> kwargs \<Rightarrow> returned result" where
  "get_protein_foreground_probability self kw =
     (case validate_anndata self (adata_arg kw) of
        Inl e \<Rightarrow> Inl e
      | Inr (ad, ws) \<Rightarrow>
         (let post = make_data_loader self ad (indices kw) (batch_size kw);
              protein_mask = name_mask (protein_list kw) (protein_column_names self);
              ws = ws @ numpy_warning kw;
              return_numpy = effective_return_numpy kw;
              idx = (case indices kw of None \<Rightarrow> [0..<length (obs_names ad)] | Some l \<Rightarrow> l)
          in case get_batch_code_from_category self (self_adata self) (as_list (transform_batch kw)) of
               Inl e \<Rightarrow> Inl e
             | Inr tb \<Rightarrow>
                (let py_mixings = map (\<lambda>(k, t). py_mixing_minibatch self kw protein_mask tb k t) (enumerate 0 post)
                 in if post = [] then Inl (RuntimeError ''torch.cat(): expected a non-empty list of Tensors'')
                    else
                      (let py_mixings = assemble (n_samples kw) (return_mean kw) py_mixings
                       in if return_numpy = Some True
                          then Inr (nan_if_empty tb (Array (amap (\<lambda>x. 1 - x) py_mixings)), ws)
                          else
                            (case index_names (column_names_is_array self)
                                    (protein_column_names self) protein_mask of
                               Inl e \<Rightarrow> Inl e
                             | Inr pro_names \<Rightarrow>
                                (case obs_names_at ad idx of
                                   Inl e \<Rightarrow> Inl e
                                 | Inr names \<Rightarrow>
                                    (case data_frame (amap (\<lambda>x. 1 - x) py_mixings) pro_names names of
                                       Inl e \<Rightarrow> Inl e
                                     | Inr foreground_prob \<Rightarrow>
                                         Inr (nan_if_empty tb foreground_prob, ws))))))))"

section \<open>Denoised samples and the feature correlation matrix\<close>

text \<open>
  \<^verbatim>\<open>_get_denoised_samples\<close>, for the transform batch at position \<open>p\<close> of the list. Per
  minibatch: the rate is the scaled gene frequencies beside the protein foreground rate,
  the dispersion is broadcast over the cells when it is per feature, a gamma draw is made
  with shape \<open>r\<close> and rate \<open>(1 - p) / p\<close>, and the protein part is zeroed where the sampled
  mixing indicator is 1. The slice with three indices needs the sample axis, which the
  module's arrays have only when \<open>n_samples > 1\<close>.
\<close>

definition broadcast_dispersion :: "dispersion \<Rightarrow> mat \<Rightarrow> mat" where
  "broadcast_dispersion r x =
     (case r of
        R2 m \<Rightarrow> m
      | R1 v \<Rightarrow> map (\<lambda>row. map2 (*) (map (\<lambda>_. 1) row) v) x)"

definition denoised_minibatch :: "totalvi \<Rightarrow> nat \<Rightarrow> real \<Rightarrow> nat option \<Rightarrow> key \<Rightarrow> tensors \<Rightarrow> ten" where
  "denoised_minibatch self n rna_sf b ky t =
     (let x = X_KEY t;
          y = PROTEIN_EXP_KEY t;
          generative_outputs = module_forward self ky t n b;
          px = gen_px generative_outputs;
          py = gen_py generative_outputs;
          pi = tmap (\<lambda>x. 1 / (1 + exp (- x))) (py_mixing py);
          mixing_sample = bernoulli_sample (uniform_draws self ky) pi;
          protein_rate = py_rate_fore py;
          rate = map2 (map2 (@)) (tmap (\<lambda>v. rna_sf * v) (px_scale px)) protein_rate;
          px_dispersion = broadcast_dispersion (px_r px) x;
          py_dispersion = broadcast_dispersion (py_r py) y;
          dispersion = map2 (@) px_dispersion py_dispersion;
          p = map (\<lambda>rate_s. map2 (map2 (\<lambda>r d. r / (r + d))) rate_s dispersion) rate;
          r = dispersion;
          l_train = map (\<lambda>(s, p_s). gamma_draws self ky s r (map (map (\<lambda>q. (1 - q) / q)) p_s))
                        (enumerate 0 p);
          data = map2 (map2 (\<lambda>row mix. take (ncols x) row @
                                         map2 (\<lambda>d m. d * (1 - m)) (drop (ncols x) row) mix))
                      l_train mixing_sample
      in permute_1_2_0 data)"

definition get_denoised_samples ::
  "totalvi \<Rightarrow> adata option \<Rightarrow> nat list option \<Rightarrow> nat \<Rightarrow> nat option \<Rightarrow> real \<Rightarrow> nat option \<Rightarrow> nat \<Rightarrow> ten result" where
  "get_denoised_samples self ad_arg idx n bs rna_sf b p =
     (case validate_anndata self ad_arg of
        Inl e \<Rightarrow> Inl e
      | Inr (ad, ws) \<Rightarrow>
         (let scdl = make_data_loader self ad idx bs
          in if scdl = [] then Inl (ValueError ''need at least one array to concatenate'')
             else if \<not> n > 1 then Inl (IndexError ''too many indices for array'')
             else Inr (concat (map (\<lambda>(k, t). denoised_minibatch self n rna_sf b (k, p) t)
                                 (enumerate 0 scdl)), ws)))"

text \<open>
  \<^verbatim>\<open>get_feature_correlation_matrix\<close>: for each transform batch the denoised samples are
  laid out sample after sample, optionally log-transformed (genes with \<open>log(x + 1e-8)\<close>,
  proteins with \<open>log1p\<close>), and correlated; the matrices are averaged. The samples are
  drawn for the model's own data (the call passes no \<open>adata\<close>).
\<close>

definition flatten_samples :: "nat \<Rightarrow> ten \<Rightarrow> mat" where
  "flatten_samples n denoised_data =
     concat (map (\<lambda>i. map (map (\<lambda>e. e ! i)) denoised_data) [0..<n])"

definition log_transform_rows :: "nat \<Rightarrow> mat \<Rightarrow> mat" where
  "log_transform_rows ng flattened =
     map (\<lambda>row. map (\<lambda>v. ln (v + 1 / 10 ^ 8)) (take ng row) @ map (\<lambda>v. ln (1 + v)) (drop ng row))
         flattened"

fun corr_mats_loop :: "totalvi \<Rightarrow> kwargs \<Rightarrow> (nat \<times> nat option) list \<Rightarrow> warning list \<Rightarrow> (mat list) result" where
  "corr_mats_loop self kw [] ws = Inr ([], ws)"
| "corr_mats_loop self kw ((p, b) # pbs) ws =
     (case get_denoised_samples self None (indices kw) (n_samples kw) (batch_size kw)
             (rna_size_factor kw) b p of
        Inl e \<Rightarrow> Inl e
      | Inr (denoised_data, ws') \<Rightarrow>
         (let flattened = flatten_samples (n_samples kw) denoised_data;
              flattened = (if log_transform kw then log_transform_rows (n_genes self) flattened
                           else flattened);
              corr_matrix = (if correlation_pearson kw then corrcoef self flattened
                             else spearmanr self flattened)
          in case corr_mats_loop self kw pbs (ws @ ws') of
               Inl e \<Rightarrow> Inl e
             | Inr (rest, ws'') \<Rightarrow> Inr (corr_matrix # rest, ws'')))"

definition mean_stack :: "mat list \<Rightarrow> mat" where
  "mean_stack ms =
     map (map (\<lambda>v. v / real (length ms)))
         (foldr (map2 (map2 (+))) (butlast ms) (last ms))"

definition get_feature_correlation_matrix :: "totalvi \<Rightarrow> kwargs \<Rightarrow> dataframe result" where
  "get_feature_correlation_matrix self kw =
     (case validate_anndata self (adata_arg kw) of
        Inl e \<Rightarrow> Inl e
      | Inr (ad, ws) \<Rightarrow>
         (case get_batch_code_from_category self ad (as_list (transform_batch kw)) of
            Inl e \<Rightarrow> Inl e
          | Inr tb \<Rightarrow>
             (case corr_mats_loop self kw (enumerate 0 tb) ws of
                Inl e \<Rightarrow> Inl e
              | Inr (corr_mats, ws') \<Rightarrow>
                  if corr_mats = [] then Inl (ValueError ''need at least one array to stack'')
                  else
                    (let names = var_names ad @ protein_column_names self
                     in Inr (\<lparr>frame_values = mean_stack corr_mats, frame_columns = names,
                              frame_index = names\<rparr>, ws')))))"

section \<open>Differential expression\<close>





section \<open>Posterior predictive samples\<close>

text \<open>
  \<^verbatim>\<open>posterior_predictive_sample\<close>, with the trace of what it did: validating the data,
  making the loader, and each call of the module's sampler. The gene likelihood is checked
  first. The result is a Python dictionary of two entries written as a literal: a later
  entry replaces an earlier one with the same key.
\<close>

datatype event = ValidatedData | MadeLoader | DrewSample nat

definition sample_arrays :: "nat \<Rightarrow> mask \<Rightarrow> ten list \<Rightarrow> ndarray" where
  "sample_arrays n m samples =
     (if n > 1 then A3 (concat (map (\<lambda>s. permute_1_2_0 (last_axis (select m) s)) samples))
      else A2 (concat (map (\<lambda>s. concat (last_axis (select m) s)) samples)))"

definition posterior_predictive_sample ::
  "totalvi \<Rightarrow> kwargs \<Rightarrow> (string \<rightharpoonup> ndarray) result \<times> event list" where
  "posterior_predictive_sample self kw =
     (if gene_likelihood self \<notin> set [''nb''] then (Inl (ValueError ''Invalid gene_likelihood''), [])
      else
        (case validate_anndata self (adata_arg kw) of
           Inl e \<Rightarrow> (Inl e, [ValidatedData])
         | Inr (ad, ws) \<Rightarrow>
            (let gene_mask = name_mask (gene_list kw) (var_names ad);
                 protein_mask = name_mask (protein_list kw) (protein_column_names self);
                 scdl = make_data_loader self ad (indices kw) (batch_size kw);
                 samples = map (\<lambda>(k, t). module_sample self k t (n_samples kw)) (enumerate 0 scdl);
                 trace = [ValidatedData, MadeLoader] @ map DrewSample [0..<length scdl]
             in if scdl = [] then (Inl (ValueError ''need at least one array to concatenate''), trace)
                else
                  (let rna = sample_arrays (n_samples kw) gene_mask (map fst samples);
                       protein = sample_arrays (n_samples kw) protein_mask (map snd samples)
                   in if kind ad = AnnData
                      then (Inr (Map.empty(''rna'' \<mapsto> rna, ''protein'' \<mapsto> protein), ws), trace)
                      else
                        (case modalities self of
                           None \<Rightarrow> (Inl (TypeError ''NoneType object is not subscriptable''), trace)
                         | Some (rna_layer, protein_layer) \<Rightarrow>
                             (Inr (Map.empty(rna_layer \<mapsto> rna, protein_layer \<mapsto> protein), ws), trace))))))"

section \<open>Empirical prior for the protein background\<close>

text \<open>
  \<^verbatim>\<open>_get_totalvi_protein_priors\<close>. The registry gives the protein counts (cells by
  proteins, with the number of proteins \<open>pro_exp.shape[1]\<close>), the batch (or panel) code of
  every cell, the number of categories and, when registered, one boolean mask over the
  proteins per batch. \<^verbatim>\<open>GaussianMixture(n_components=2).fit\<close> is sklearn's: a fit gives the
  means and the covariances of the two components, or ends in a ConvergenceWarning,
  which is an exception here because the routine turns every warning into an error, or
  raises something else. The random generator is read through its raw draws; the fit and
  the draws are keyed by the batch and the position of the cell among the sampled ones.
\<close>

datatype gmm_fit =
    Fitted (gmm_means: "real \<times> real") (gmm_covariances: "real \<times> real")
  | ConvergenceWarning
  | FitRaised error

record registry =
  pro_exp :: mat
  n_proteins :: nat
  batch :: "nat list"
  n_cats :: nat
  batch_mask :: "(nat \<Rightarrow> bool list) option"
  choice_draws :: "nat \<Rightarrow> nat \<Rightarrow> nat"
  gmm_fit_of :: "nat \<Rightarrow> nat \<Rightarrow> vec \<Rightarrow> gmm_fit"

definition default_n_cells :: nat where
  "default_n_cells = 100"

text \<open>
  One cell: the component with the lower mean is the background (\<open>argsort\<close> of the two
  means, the first component on a tie); its mean and the square root of its covariance
  are recorded. A fit that does not converge contributes mean 0 and scale 0.05.
\<close>

definition cell_background :: "gmm_fit \<Rightarrow> error + (real \<times> real)" where
  "cell_background fit =
     (case fit of
        ConvergenceWarning \<Rightarrow> Inr (0, 0.05)
      | FitRaised e \<Rightarrow> Inl e
      | Fitted means covs \<Rightarrow>
          (let (mu, covariances) = (if snd means < fst means then (snd means, snd covs)
                                    else (fst means, fst covs))
           in if covariances < 0 then Inl (WarningAsError ''invalid value encountered in sqrt'')
              else Inr (mu, sqrt covariances)))"

fun fit_cells :: "(nat \<Rightarrow> vec \<Rightarrow> gmm_fit) \<Rightarrow> (nat \<times> vec) list \<Rightarrow> error + (real list \<times> real list)" where
  "fit_cells fit [] = Inr ([], [])"
| "fit_cells fit ((i, c) # cs) =
     (case cell_background (fit i (map (\<lambda>v. ln (1 + v)) c)) of
        Inl e \<Rightarrow> Inl e
      | Inr (mu, scale_c) \<Rightarrow>
         (case fit_cells fit cs of
            Inl e \<Rightarrow> Inl e
          | Inr (mus, scales) \<Rightarrow> Inr (mu # mus, scale_c # scales)))"

text \<open>
  \<^verbatim>\<open>np.random.choice(np.arange(n), size=n_cells)\<close>: \<open>n_cells\<close> positions below \<open>n\<close>, drawn
  with replacement.
\<close>

definition choice :: "(nat \<Rightarrow> nat) \<Rightarrow> nat \<Rightarrow> nat \<Rightarrow> nat list" where
  "choice draws n size_v = map (\<lambda>i. draws i mod n) [0..<size_v]"

text \<open>The body of the loop over the batches: the prior mean and scale of batch \<open>b\<close>.\<close>

definition batch_prior :: "registry \<Rightarrow> nat \<Rightarrow> nat \<Rightarrow> error + (real \<times> real)" where
  "batch_prior reg n_cells b =
     (let num_in_batch = length (filter (\<lambda>c. c = b) (batch reg))
      in if num_in_batch = 0 then Inr (0, 1)
         else
           (let batch_pro_exp = map snd (filter (\<lambda>(c, row). c = b) (zip (batch reg) (pro_exp reg)));
                batch_pro_exp = (case batch_mask reg of
                                   None \<Rightarrow> batch_pro_exp
                                 | Some m \<Rightarrow> map (select (BoolMask (m b))) batch_pro_exp);
                too_few = (case batch_mask reg of
                             None \<Rightarrow> False
                           | Some m \<Rightarrow> length (filter (\<lambda>x. x) (m b)) < 5)
            in if too_few then Inr (0.0, 0.05)
               else if length batch_pro_exp = 0 then Inr (0.0, 0.05)
               else
                 (let cells = choice (choice_draws reg b) (length batch_pro_exp) n_cells;
                      batch_pro_exp = map (\<lambda>c. batch_pro_exp ! c) cells
                  in case fit_cells (gmm_fit_of reg b) (enumerate 0 batch_pro_exp) of
                       Inl e \<Rightarrow> Inl e
                     | Inr (mus, scales) \<Rightarrow>
                         if mus = [] then Inl (WarningAsError ''Mean of empty slice.'')
                         else Inr (sum_list mus / real (length mus),
                                   sqrt (sum_list (map (\<lambda>s. s\<^sup>2) scales) / real (n_cells\<^sup>2))))))"

fun priors_loop :: "registry \<Rightarrow> nat \<Rightarrow> nat list \<Rightarrow> error + (real \<times> real) list" where
  "priors_loop reg n_cells [] = Inr []"
| "priors_loop reg n_cells (b # bs) =
     (case batch_prior reg n_cells b of
        Inl e \<Rightarrow> Inl e
      | Inr p \<Rightarrow>
         (case priors_loop reg n_cells bs of
            Inl e \<Rightarrow> Inl e
          | Inr ps \<Rightarrow> Inr (p # ps)))"

text \<open>
  The whole routine: the data are validated first (a warning of the validation is an
  error here as well), the batches are visited in the order of their codes, and the row
  of batch values is repeated once per protein.
\<close>

definition get_totalvi_protein_priors ::
  "totalvi \<Rightarrow> adata option \<Rightarrow> registry \<Rightarrow> nat \<Rightarrow> error + (mat \<times> mat)" where
  "get_totalvi_protein_priors self ad reg n_cells =
     (case validate_anndata self ad of
        Inl e \<Rightarrow> Inl e
      | Inr (a, UserWarning w # ws) \<Rightarrow> Inl (WarningAsError w)
      | Inr (a, []) \<Rightarrow>
         (case priors_loop reg n_cells [0..<n_cats reg] of
            Inl e \<Rightarrow> Inl e
          | Inr ps \<Rightarrow>
              Inr (replicate (n_proteins reg) (map fst ps),
                   replicate (n_proteins reg) (map snd ps))))"

section \<open>Shapes and a small concrete model\<close>

text \<open>
  The position of a minibatch's first cell in the concatenated output, and the contract
  of the module's inference: one library entry per cell of the minibatch.
\<close>

definition cell_offset :: "tensors list \<Rightarrow> nat \<Rightarrow> nat" where
  "cell_offset post k = sum_list (map (\<lambda>t. length (X_KEY t)) (take k post))"

definition inference_ok :: "totalvi \<Rightarrow> tensors list \<Rightarrow> bool" where
  "inference_ok self post =
     list_all (\<lambda>(k, t). let out = module_inference self k t in
                  length (loc (ql out)) = length (X_KEY t) \<and>
                  length (scale (ql out)) = length (X_KEY t) \<and>
                  length (library_gene out) = length (X_KEY t)) (enumerate 0 post)"

text \<open>
  A model over two cells, two genes and two proteins, one cell per minibatch, used to run
  the routines on concrete inputs. Its module returns fixed arrays; the protein foreground
  rate depends on the transform batch.
\<close>

definition demo_adata :: adata where
  "demo_adata = \<lparr>kind = AnnData, obs_names = [''c0'', ''c1''], var_names = [''g0'', ''g1'']\<rparr>"

definition demo_tensors :: "nat \<Rightarrow> tensors" where
  "demo_tensors i = \<lparr>X_KEY = [[1, real i]], PROTEIN_EXP_KEY = [[3, 4]]\<rparr>"

definition demo_forward :: "key \<Rightarrow> tensors \<Rightarrow> nat \<Rightarrow> nat option \<Rightarrow> generative_outputs" where
  "demo_forward ky t n b =
     (let s = (if n > 1 then n else 1)
      in \<lparr>gen_px = \<lparr>px_rate = replicate s [[10, 30]], px_scale = replicate s [[1 / 4, 3 / 4]],
                    px_r = R1 [1, 1]\<rparr>,
          gen_py = \<lparr>py_mixing = replicate s [[0, 0]],
                    py_rate_fore = replicate s [if b = Some 1 then [6, 10] else [2, 6]],
                    py_rate_back = replicate s [[4, 4]], py_r = R1 [1, 1]\<rparr>\<rparr>)"

definition demo_codes :: "adata \<Rightarrow> transform_batch_arg \<Rightarrow> error + nat option list" where
  "demo_codes ad tb =
     (let code = (\<lambda>c. case c of CatNone \<Rightarrow> None | CatNum n \<Rightarrow> Some (nat n)
                          | CatStr s \<Rightarrow> Some (if s = ''b1'' then 1 else 0))
      in case tb of Single c \<Rightarrow> Inr [code c] | Many cs \<Rightarrow> Inr (map code cs))"

definition demo_model :: totalvi where
  "demo_model =
     \<lparr>gene_likelihood = ''nb'',
      check_if_trained = None,
      super_validate_anndata = (\<lambda>a. Inr (case a of None \<Rightarrow> demo_adata | Some x \<Rightarrow> x)),
      has_protein_registry = True,
      summary_n_proteins = 2,
      registry_n_proteins = (\<lambda>a. 2),
      check_nonnegative_integers = (\<lambda>a. True),
      make_data_loader = (\<lambda>a idx bs. map demo_tensors (case idx of None \<Rightarrow> [0, 1] | Some l \<Rightarrow> l)),
      module_inference = (\<lambda>k t. \<lparr>ql = \<lparr>loc = [0], scale = [0]\<rparr>, library_gene = [real k + 5]\<rparr>),
      module_forward = demo_forward,
      module_sample = (\<lambda>k t n. (replicate (if n > 1 then n else 1) [[1, 2]],
                                 replicate (if n > 1 then n else 1) [[3, 4]])),
      get_batch_code_from_category = demo_codes,
      self_adata = demo_adata,
      protein_column_names = [''p0'', ''p1''],
      column_names_is_array = True,
      random_choice = (\<lambda>l n. take n l),
      uniform_draws = (\<lambda>ky s i j. if j = 0 then 0 else 1),
      gamma_draws = (\<lambda>ky s r rate. r),
      n_genes = 2,
      corrcoef = (\<lambda>m. m),
      spearmanr = (\<lambda>m. m),
      modalities = None,
      de_core = (\<lambda>f names. Inr \<lparr>frame_values = [], frame_columns = names, frame_index = names\<rparr>)\<rparr>"

definition demo_kwargs :: kwargs where
  "demo_kwargs =
     \<lparr>adata_arg = None, indices = None, n_samples_overall = None,
      transform_batch = Single CatNone, gene_list = None, protein_list = None,
      library_size = FixedSize 1, n_samples = 1, sample_protein_mixing = False,
      scale_protein = False, include_protein_background = False, batch_size = None,
      return_mean = True, return_numpy = None, give_mean = True,
      protein_prior_count = None, use_field = None, rna_size_factor = 1000,
      correlation_pearson = False, log_transform = False\<rparr>"

subsection \<open>Shapes of nested lists\<close>

definition has_shape2 :: "'a list list \<Rightarrow> nat \<Rightarrow> nat \<Rightarrow> bool" where
  "has_shape2 m a b = (length m = a \<and> list_all (\<lambda>r. length r = b) m)"

definition has_shape3 :: "'a list list list \<Rightarrow> nat \<Rightarrow> nat \<Rightarrow> nat \<Rightarrow> bool" where
  "has_shape3 t a b c = (length t = a \<and> list_all (\<lambda>m. has_shape2 m b c) t)"

text \<open>
  The contract of the module's sampler: for a minibatch it returns the gene and the
  protein samples with one row per cell and one column per registered feature, in
  \<open>n_samples\<close> slices when \<open>n_samples > 1\<close> and as a two-dimensional array otherwise.
\<close>

definition sample_ok :: "totalvi \<Rightarrow> nat \<Rightarrow> nat \<Rightarrow> nat \<Rightarrow> tensors list \<Rightarrow> bool" where
  "sample_ok self n g p scdl =
     list_all (\<lambda>(k, t). has_shape3 (fst (module_sample self k t n)) (if n > 1 then n else 1)
                            (length (X_KEY t)) g \<and>
                         has_shape3 (snd (module_sample self k t n)) (if n > 1 then n else 1)
                            (length (X_KEY t)) p)
              (enumerate 0 scdl)"

subsection \<open>Kinds of returned values\<close>

fun is_array :: "returned \<Rightarrow> bool" where
  "is_array (Array a) = True"
| "is_array (Frame f) = False"
| "is_array (NaNs r) = is_array r"

text \<open>The same outcome with one more warning at the end; an error stays the error.\<close>

definition also_warns :: "warning \<Rightarrow> 'a result \<Rightarrow> 'a result" where
  "also_warns w r = (case r of Inl e \<Rightarrow> Inl e | Inr (v, ws) \<Rightarrow> Inr (v, ws @ [w]))"

definition return_numpy_warning :: warning where
  "return_numpy_warning = UserWarning ''`return_numpy` must be `True` if `n_samples > 1` and `return_mean` is `False`, returning an `np.ndarray`.''"

text \<open>The cells a call of \<^verbatim>\<open>get_normalized_expression\<close> evaluates.\<close>

definition requested_cells :: "totalvi \<Rightarrow> kwargs \<Rightarrow> adata \<Rightarrow> nat list" where
  "requested_cells self kw ad =
     (let idx = (case indices kw of None \<Rightarrow> [0..<length (obs_names ad)] | Some l \<Rightarrow> l)
      in case n_samples_overall kw of None \<Rightarrow> idx | Some n \<Rightarrow> random_choice self idx n)"

subsection \<open>The cells of a batch and the cells sampled from it\<close>

text \<open>
  The rows of batch \<open>b\<close> after the mask (as the loop body computes them), the number of
  proteins the mask leaves, and the fit of the cell sampled at position \<open>i\<close>.
\<close>

definition batch_rows :: "registry \<Rightarrow> nat \<Rightarrow> mat" where
  "batch_rows reg b =
     (let rows = map snd (filter (\<lambda>(c, row). c = b) (zip (batch reg) (pro_exp reg)))
      in case batch_mask reg of
           None \<Rightarrow> rows
         | Some m \<Rightarrow> map (select (BoolMask (m b))) rows)"

definition usable_proteins :: "registry \<Rightarrow> nat \<Rightarrow> nat" where
  "usable_proteins reg b =
     (case batch_mask reg of
        None \<Rightarrow> n_proteins reg
      | Some m \<Rightarrow> length (filter (\<lambda>x. x) (m b)))"

definition sampled_fit :: "registry \<Rightarrow> nat \<Rightarrow> nat \<Rightarrow> gmm_fit" where
  "sampled_fit reg b i =
     gmm_fit_of reg b i
       (map (\<lambda>v. ln (1 + v))
          (batch_rows reg b ! (choice_draws reg b i mod length (batch_rows reg b))))"

definition fit_recovers :: "gmm_fit \<Rightarrow> bool" where
  "fit_recovers fit = (case cell_background fit of Inl e \<Rightarrow> False | Inr v \<Rightarrow> True)"

text \<open>
  A registry with four batch codes over three cells and six proteins: batch 0 has no
  cell, the mask leaves batch 1 two proteins, every fit of batch 2 ends in a
  ConvergenceWarning, and every fit of batch 3 finds the components with means 3 and 1 and
  covariances 9 and 4.
\<close>

definition demo_registry :: registry where
  "demo_registry =
     \<lparr>pro_exp = [[5, 0, 3, 0, 0, 1], [2, 1, 0, 0, 7, 0], [4, 4, 0, 1, 0, 9]],
      n_proteins = 6,
      batch = [1, 2, 3],
      n_cats = 4,
      batch_mask = Some (\<lambda>b. if b = 1 then [True, True, False, False, False, False]
                              else [True, True, True, True, True, True]),
      choice_draws = (\<lambda>b i. 7 * i + b),
      gmm_fit_of = (\<lambda>b i c. if b = 3 then Fitted (3, 1) (9, 4) else ConvergenceWarning)\<rparr>"

subsection \<open>The protein value of one cell\<close>

text \<open>
  The contract of the module's forward pass for one minibatch: for every transform batch
  of the list, the mixing logits and the two rates have one slice per sample (one slice
  when \<open>n_samples \<le> 1\<close>), one row per cell and one column per registered protein, as the
  minibatch's own protein counts have.
\<close>

definition sample_slices :: "kwargs \<Rightarrow> nat" where
  "sample_slices kw = (if n_samples kw > 1 then n_samples kw else 1)"

definition py_ok :: "totalvi \<Rightarrow> kwargs \<Rightarrow> nat option list \<Rightarrow> nat \<Rightarrow> tensors \<Rightarrow> bool" where
  "py_ok self kw tb k t =
     (has_shape2 (PROTEIN_EXP_KEY t) (length (PROTEIN_EXP_KEY t)) (length (protein_column_names self)) \<and>
      list_all (\<lambda>(p, b).
          has_shape3 (py_mixing (gen_py (module_forward self (k, p) t (n_samples kw) b)))
            (sample_slices kw) (length (PROTEIN_EXP_KEY t)) (length (protein_column_names self)) \<and>
          has_shape3 (py_rate_fore (gen_py (module_forward self (k, p) t (n_samples kw) b)))
            (sample_slices kw) (length (PROTEIN_EXP_KEY t)) (length (protein_column_names self)) \<and>
          has_shape3 (py_rate_back (gen_py (module_forward self (k, p) t (n_samples kw) b)))
            (sample_slices kw) (length (PROTEIN_EXP_KEY t)) (length (protein_column_names self)))
        (enumerate 0 tb))"

text \<open>
  The weight of the background for one entry: the mixing probability, or its Bernoulli
  draw; and the protein vector of cell \<open>i\<close> in sample \<open>s\<close> for one call of the module,
  before any scaling and before the restriction to the requested proteins.
\<close>

definition mixing_weight :: "totalvi \<Rightarrow> kwargs \<Rightarrow> key \<Rightarrow> nat \<Rightarrow> nat \<Rightarrow> nat \<Rightarrow> real \<Rightarrow> real" where
  "mixing_weight self kw ky s i j logit =
     (if sample_protein_mixing kw
      then (if uniform_draws self ky s i j < sigmoid logit then 1 else 0)
      else sigmoid logit)"

definition unscaled_row :: "totalvi \<Rightarrow> kwargs \<Rightarrow> key \<Rightarrow> py_params \<Rightarrow> nat \<Rightarrow> nat \<Rightarrow> vec" where
  "unscaled_row self kw ky py s i =
     map (\<lambda>j. py_rate_fore py ! s ! i ! j *
                 (1 - mixing_weight self kw ky s i j (py_mixing py ! s ! i ! j)) +
               (if include_protein_background kw
                then py_rate_back py ! s ! i ! j *
                       mixing_weight self kw ky s i j (py_mixing py ! s ! i ! j)
                else 0))
         [0..<length (py_mixing py ! s ! i)]"

text \<open>The same vector for all samples and cells at once: the value before the scaling.\<close>

definition unscaled_value :: "totalvi \<Rightarrow> kwargs \<Rightarrow> key \<Rightarrow> py_params \<Rightarrow> ten" where
  "unscaled_value self kw ky py =
     (let protein_mixing = tmap (\<lambda>x. 1 / (1 + exp (- x))) (py_mixing py);
          protein_mixing = (if sample_protein_mixing kw
                            then bernoulli_sample (uniform_draws self ky) protein_mixing
                            else protein_mixing);
          protein_val = tmap2 (\<lambda>f m. f * (1 - m)) (py_rate_fore py) protein_mixing
      in if include_protein_background kw
         then tmap2 (+) protein_val (tmap2 (*) (py_rate_back py) protein_mixing)
         else protein_val)"


text \<open>
  The entries of a returned value, table or array (for a marked value, the entries that
  stand for NaN), and the position of a minibatch's first cell among the rows of the
  protein output.
\<close>

fun values_of :: "returned \<Rightarrow> ndarray" where
  "values_of (Array a) = a"
| "values_of (Frame f) = A2 (frame_values f)"
| "values_of (NaNs r) = values_of r"

definition protein_offset :: "tensors list \<Rightarrow> nat \<Rightarrow> nat" where
  "protein_offset post k = sum_list (map (\<lambda>t. length (PROTEIN_EXP_KEY t)) (take k post))"

section \<open>Verified properties\<close>

subsection \<open>Lists of lists\<close>

lemma nth_concat_offset:
  "k < length xss \<Longrightarrow> i < length (xss ! k) \<Longrightarrow>
   concat xss ! (sum_list (map length (take k xss)) + i) = xss ! k ! i"
proof (induction xss arbitrary: k)
  case Nil
  then show ?case by simp
next
  case (Cons xs xss)
  show ?case
  proof (cases k)
    case 0
    with Cons.prems show ?thesis by (simp add: nth_append)
  next
    case (Suc m)
    with Cons.prems have "concat xss ! (sum_list (map length (take m xss)) + i) = xss ! m ! i"
      by (intro Cons.IH) simp_all
    with Suc show ?thesis by (simp add: nth_append add.assoc)
  qed
qed

lemma enumerate_not_Nil: "xs \<noteq> [] \<Longrightarrow> enumerate n xs \<noteq> []"
  by (cases xs) simp_all

subsection \<open>Latent library size\<close>

lemma library_of_length:
  "length (loc (ql out)) = n \<Longrightarrow> length (scale (ql out)) = n \<Longrightarrow> length (library_gene out) = n \<Longrightarrow>
   length (library_of gm out) = n"
  by (simp add: library_of_def)

lemma library_of_nth:
  "i < length (loc (ql out)) \<Longrightarrow> i < length (scale (ql out)) \<Longrightarrow>
   library_of gm out ! i =
     (if gm then exp (loc (ql out) ! i + 0.5 * (scale (ql out) ! i)\<^sup>2) else library_gene out ! i)"
  by (simp add: library_of_def)

lemma demo_validate: "validate_anndata demo_model None = Inr (demo_adata, [])"
  by (simp add: validate_anndata_def demo_model_def)

text \<open>
  C7. With \<open>give_mean=True\<close> the value returned for every cell is the mean of the
  log-normal library posterior, \<open>exp(loc + 0.5 * scale^2)\<close>; with \<open>give_mean=False\<close> it is
  the sampled library of the inference outputs. The cells keep the loader's order: cell
  \<open>i\<close> of minibatch \<open>k\<close> is at position \<open>cell_offset post k + i\<close>. The call returns
  whenever the model is trained, the data are valid and the loader yields a minibatch.
\<close>

theorem latent_library_size_per_cell:
  assumes trained: "check_if_trained self = None"
    and valid: "validate_anndata self (adata_arg kw) = Inr (ad, ws)"
    and post: "post = make_data_loader self ad (indices kw) (batch_size kw)"
    and ne: "post \<noteq> []"
    and ok: "inference_ok self post"
  shows "\<exists>lib. get_latent_library_size self kw = Inr (lib, ws) \<and>
           length lib = cell_offset post (length post) \<and>
           (\<forall>k<length post. \<forall>i<length (X_KEY (post ! k)).
              lib ! (cell_offset post k + i) =
                (let out = module_inference self k (post ! k) in
                 if give_mean kw then exp (loc (ql out) ! i + 0.5 * (scale (ql out) ! i)\<^sup>2)
                 else library_gene out ! i))"
proof -
  define libs where "libs = map (\<lambda>(k, t). library_of (give_mean kw) (module_inference self k t)) (enumerate 0 post)"
  have len: "length libs = length post" by (simp add: libs_def)
  have nth: "libs ! k = library_of (give_mean kw) (module_inference self k (post ! k))" if "k < length post" for k
    using that by (simp add: libs_def nth_enumerate_eq)
  have okk: "length (loc (ql (module_inference self k (post ! k)))) = length (X_KEY (post ! k)) \<and>
             length (scale (ql (module_inference self k (post ! k)))) = length (X_KEY (post ! k)) \<and>
             length (library_gene (module_inference self k (post ! k))) = length (X_KEY (post ! k))"
    if "k < length post" for k
  proof -
    have "(k, post ! k) \<in> set (enumerate 0 post)"
      using that by (simp add: in_set_enumerate_eq)
    with ok show ?thesis
      unfolding inference_ok_def list_all_iff by (auto simp: Let_def)
  qed
  have lenk: "length (libs ! k) = length (X_KEY (post ! k))" if "k < length post" for k
    using that okk[OF that] by (simp add: nth library_of_length)
  have maplen: "map length libs = map (\<lambda>t. length (X_KEY t)) post"
    by (rule nth_equalityI) (simp_all add: len lenk)
  have off: "sum_list (map length (take k libs)) = cell_offset post k" for k
    by (simp add: cell_offset_def take_map[symmetric] maplen)
  have ne': "enumerate 0 post \<noteq> []"
    using ne by (rule enumerate_not_Nil)
  have res: "get_latent_library_size self kw = Inr (concat libs, ws)"
    using trained valid ne' by (simp add: get_latent_library_size_def post[symmetric] libs_def Let_def)
  have l: "length (concat libs) = cell_offset post (length post)"
    using off[of "length post"] len by (simp add: length_concat)
  have "concat libs ! (cell_offset post k + i) =
          (let out = module_inference self k (post ! k) in
                 if give_mean kw then exp (loc (ql out) ! i + 0.5 * (scale (ql out) ! i)\<^sup>2)
                 else library_gene out ! i)"
    if k: "k < length post" and i: "i < length (X_KEY (post ! k))" for k i
  proof -
    have "concat libs ! (sum_list (map length (take k libs)) + i) = libs ! k ! i"
      using k i by (intro nth_concat_offset) (simp_all add: len lenk)
    then show ?thesis
      using okk[OF k] i by (simp add: off nth[OF k] library_of_nth Let_def)
  qed
  with res l show ?thesis by blast
qed

theorem latent_library_size_per_cell_witness:
  "\<exists>lib. get_latent_library_size demo_model demo_kwargs = Inr (lib, []) \<and>
         length lib = 2 \<and> lib ! 0 = 1 \<and> lib ! 1 = 1"
proof -
  let ?post = "[demo_tensors 0, demo_tensors 1]"
  have p: "?post = make_data_loader demo_model demo_adata (indices demo_kwargs) (batch_size demo_kwargs)"
    by (simp add: demo_model_def demo_kwargs_def)
  have v: "validate_anndata demo_model (adata_arg demo_kwargs) = Inr (demo_adata, [])"
    by (simp add: demo_validate demo_kwargs_def)
  have t: "check_if_trained demo_model = None"
    by (simp add: demo_model_def)
  have ok: "inference_ok demo_model ?post"
    by (simp add: inference_ok_def demo_model_def demo_tensors_def)
  from latent_library_size_per_cell[OF t v p _ ok]
  obtain lib where r: "get_latent_library_size demo_model demo_kwargs = Inr (lib, [])"
    and l: "length lib = cell_offset ?post (length ?post)"
    and c: "\<forall>k<length ?post. \<forall>i<length (X_KEY (?post ! k)).
              lib ! (cell_offset ?post k + i) =
                (let out = module_inference demo_model k (?post ! k) in
                 if give_mean demo_kwargs then exp (loc (ql out) ! i + 0.5 * (scale (ql out) ! i)\<^sup>2)
                 else library_gene out ! i)"
    by auto
  have c0: "lib ! 0 = 1"
    using c[rule_format, of 0 0]
    by (simp add: cell_offset_def demo_tensors_def demo_model_def demo_kwargs_def)
  have c1: "lib ! 1 = 1"
    using c[rule_format, of 1 0]
    by (simp add: cell_offset_def demo_tensors_def demo_model_def demo_kwargs_def)
  have "length lib = 2"
    using l by (simp add: cell_offset_def demo_tensors_def)
  with r c0 c1 show ?thesis by blast
qed

subsection \<open>Posterior predictive samples\<close>

text \<open>
  C9. \<^verbatim>\<open>posterior_predictive_sample\<close> raises \<open>ValueError\<close> at once when the module's gene
  likelihood is not \<open>nb\<close>: the trace is empty, so no data were validated or loaded and
  no sample was drawn. With \<open>nb\<close> the check raises nothing: the routine goes on to
  validate the data, and what it returns then is the validation's error or, past the
  validation, comes after the loader was made.
\<close>

theorem posterior_predictive_sample_likelihood_check:
  "(gene_likelihood self \<noteq> ''nb'' \<longrightarrow>
      posterior_predictive_sample self kw = (Inl (ValueError ''Invalid gene_likelihood''), [])) \<and>
   (gene_likelihood self = ''nb'' \<longrightarrow>
      take 1 (snd (posterior_predictive_sample self kw)) = [ValidatedData] \<and>
      (\<forall>e. validate_anndata self (adata_arg kw) = Inl e \<longrightarrow>
           posterior_predictive_sample self kw = (Inl e, [ValidatedData])) \<and>
      (\<forall>ad ws. validate_anndata self (adata_arg kw) = Inr (ad, ws) \<longrightarrow>
           take 2 (snd (posterior_predictive_sample self kw)) = [ValidatedData, MadeLoader]))"
  by (auto simp: posterior_predictive_sample_def Let_def split: sum.splits option.splits prod.splits)

theorem posterior_predictive_sample_likelihood_check_witness:
  "posterior_predictive_sample (demo_model\<lparr>gene_likelihood := ''zinb''\<rparr>) demo_kwargs =
     (Inl (ValueError ''Invalid gene_likelihood''), []) \<and>
   snd (posterior_predictive_sample demo_model demo_kwargs) =
     [ValidatedData, MadeLoader, DrewSample 0, DrewSample 1]"
proof -
  have z: "gene_likelihood (demo_model\<lparr>gene_likelihood := ''zinb''\<rparr>) \<noteq> ''nb''" by simp
  have n: "gene_likelihood demo_model = ''nb''" by (simp add: demo_model_def)
  have a: "posterior_predictive_sample (demo_model\<lparr>gene_likelihood := ''zinb''\<rparr>) demo_kwargs =
     (Inl (ValueError ''Invalid gene_likelihood''), [])"
    using posterior_predictive_sample_likelihood_check[of "demo_model\<lparr>gene_likelihood := ''zinb''\<rparr>" demo_kwargs] z
    by blast
  have v: "validate_anndata demo_model (adata_arg demo_kwargs) = Inr (demo_adata, [])"
    by (simp add: validate_anndata_def demo_model_def demo_kwargs_def)
  have b: "take 2 (snd (posterior_predictive_sample demo_model demo_kwargs)) = [ValidatedData, MadeLoader]"
    using posterior_predictive_sample_likelihood_check[of demo_model demo_kwargs] n v by blast
  have l: "make_data_loader demo_model demo_adata (indices demo_kwargs) (batch_size demo_kwargs)
             = [demo_tensors 0, demo_tensors 1]"
    by (simp add: demo_model_def demo_kwargs_def)
  have c: "snd (posterior_predictive_sample demo_model demo_kwargs) =
     [ValidatedData, MadeLoader, DrewSample 0, DrewSample 1]"
  proof -
    have k: "kind demo_adata = AnnData" by (simp add: demo_adata_def)
    show ?thesis
      using n v by (simp add: posterior_predictive_sample_def l k Let_def upt_rec)
  qed
  from a b c show ?thesis by simp
qed

subsection \<open>Shapes of the posterior predictive samples\<close>

lemma length_filter_fst_zip:
  "length v = length w \<Longrightarrow> length (filter fst (zip bs v)) = length (filter fst (zip bs w))"
proof (induction bs arbitrary: v w)
  case Nil
  then show ?case by simp
next
  case (Cons b bs)
  show ?case
  proof (cases v)
    case Nil
    with Cons.prems show ?thesis by simp
  next
    case (Cons x xs)
    with Cons.prems obtain y ys where w: "w = y # ys" "length xs = length ys"
      by (cases w) auto
    from Cons.IH[OF w(2)] Cons w show ?thesis by simp
  qed
qed

lemma length_select_cong:
  assumes "length v = length w"
  shows "length (select m v) = length (select m w)"
proof (cases m)
  case SliceAll
  with assms show ?thesis by simp
next
  case (BoolMask bs)
  with length_filter_fst_zip[OF assms, of bs] show ?thesis by simp
qed

lemma has_shape2_select:
  "has_shape2 m a (length names) \<Longrightarrow>
   has_shape2 (map (select msk) m) a (length (select msk names))"
  by (auto simp: has_shape2_def list_all_iff intro: length_select_cong)

lemma has_shape3_last_axis_select:
  "has_shape3 t a b (length names) \<Longrightarrow>
   has_shape3 (last_axis (select msk) t) a b (length (select msk names))"
  by (auto simp: has_shape3_def last_axis_def list_all_iff intro: has_shape2_select)

lemma has_shape2_transpose:
  assumes "has_shape2 m a b" "a > 0"
  shows "has_shape2 (transpose m) b a"
proof -
  have r: "transpose m = map (\<lambda>i. map (\<lambda>j. m ! j ! i) [0..<length m]) [0..<b]"
    using assms by (intro transpose_rectangle) (auto simp: has_shape2_def list_all_length)
  show ?thesis
    using assms by (simp add: r has_shape2_def list_all_iff)
qed

lemma has_shape3_transpose:
  assumes "has_shape3 t a b c" "a > 0"
  shows "has_shape3 (transpose t) b a c"
proof -
  have r: "transpose t = map (\<lambda>i. map (\<lambda>j. t ! j ! i) [0..<length t]) [0..<b]"
    using assms by (intro transpose_rectangle) (auto simp: has_shape3_def has_shape2_def list_all_length)
  show ?thesis
    using assms by (auto simp: r has_shape3_def has_shape2_def list_all_length)
qed

lemma has_shape3_permute:
  assumes "has_shape3 t a b c" "a > 0"
  shows "has_shape3 (permute_1_2_0 t) b c a"
proof -
  have "has_shape3 (transpose t) b a c"
    using assms by (rule has_shape3_transpose)
  then show ?thesis
    using assms(2) unfolding permute_1_2_0_def
    by (auto simp: has_shape3_def list_all_iff intro: has_shape2_transpose)
qed

lemma has_shape3_concat:
  assumes "\<forall>k<length ts. has_shape3 (ts ! k) (cs ! k) b c" "length cs = length ts"
  shows "has_shape3 (concat ts) (sum_list cs) b c"
  using assms
proof (induction ts arbitrary: cs)
  case Nil
  then show ?case by (simp add: has_shape3_def)
next
  case (Cons t ts)
  then obtain c0 cs' where cs: "cs = c0 # cs'" by (cases cs) auto
  have h: "has_shape3 t c0 b c" using Cons.prems(1) cs by (auto dest: spec[of _ 0])
  have "\<forall>k<length ts. has_shape3 (ts ! k) (cs' ! k) b c"
    using Cons.prems(1) cs by (auto dest: spec[of _ "Suc _"])
  then have "has_shape3 (concat ts) (sum_list cs') b c"
    using Cons.prems(2) cs by (intro Cons.IH) auto
  with h show ?case by (auto simp: cs has_shape3_def)
qed

lemma has_shape2_concat:
  assumes "\<forall>k<length ts. has_shape2 (ts ! k) (cs ! k) b" "length cs = length ts"
  shows "has_shape2 (concat ts) (sum_list cs) b"
  using assms
proof (induction ts arbitrary: cs)
  case Nil
  then show ?case by (simp add: has_shape2_def)
next
  case (Cons t ts)
  then obtain c0 cs' where cs: "cs = c0 # cs'" by (cases cs) auto
  have h: "has_shape2 t c0 b" using Cons.prems(1) cs by (auto dest: spec[of _ 0])
  have "\<forall>k<length ts. has_shape2 (ts ! k) (cs' ! k) b"
    using Cons.prems(1) cs by (auto dest: spec[of _ "Suc _"])
  then have "has_shape2 (concat ts) (sum_list cs') b"
    using Cons.prems(2) cs by (intro Cons.IH) auto
  with h show ?case by (auto simp: cs has_shape2_def)
qed

lemma has_shape3_one_concat:
  "has_shape3 s (Suc 0) a b \<Longrightarrow> has_shape2 (concat s) a b"
  by (cases s) (auto simp: has_shape3_def)

lemma sample_arrays_shape:
  assumes sh: "\<forall>k<length ss. has_shape3 (ss ! k) (if n > 1 then n else 1) (cs ! k) (length names)"
    and len: "length cs = length ss"
  shows "if n > 1 then \<exists>r. sample_arrays n msk ss = A3 r \<and>
                            has_shape3 r (sum_list cs) (length (select msk names)) n
         else \<exists>r. sample_arrays n msk ss = A2 r \<and>
                   has_shape2 r (sum_list cs) (length (select msk names))"
proof (cases "n > 1")
  case True
  have "\<forall>k<length (map (\<lambda>s. permute_1_2_0 (last_axis (select msk) s)) ss).
          has_shape3 (map (\<lambda>s. permute_1_2_0 (last_axis (select msk) s)) ss ! k) (cs ! k)
            (length (select msk names)) n"
    using sh True by (auto intro!: has_shape3_permute has_shape3_last_axis_select)
  then have "has_shape3 (concat (map (\<lambda>s. permute_1_2_0 (last_axis (select msk) s)) ss))
               (sum_list cs) (length (select msk names)) n"
    by (rule has_shape3_concat) (simp add: len)
  with True show ?thesis by (simp add: sample_arrays_def)
next
  case False
  have "\<forall>k<length (map (\<lambda>s. concat (last_axis (select msk) s)) ss).
          has_shape2 (map (\<lambda>s. concat (last_axis (select msk) s)) ss ! k) (cs ! k)
            (length (select msk names))"
    using sh False by (auto intro!: has_shape3_one_concat has_shape3_last_axis_select)
  then have "has_shape2 (concat (map (\<lambda>s. concat (last_axis (select msk) s)) ss))
               (sum_list cs) (length (select msk names))"
    by (rule has_shape2_concat) (simp add: len)
  with False show ?thesis by (simp add: sample_arrays_def)
qed

text \<open>
  C10 (amended). Whenever \<^verbatim>\<open>posterior_predictive_sample\<close> gets past its checks (likelihood
  \<open>nb\<close>, valid data, at least one minibatch, and for a MuData the registered modalities),
  it returns the dictionary written as the literal \<open>{kr: rna, kp: protein}\<close>, with the keys
  \<open>rna\<close> and \<open>protein\<close> for an AnnData and the registered \<open>rna_layer\<close> and \<open>protein_layer\<close>
  modality names for a MuData. When the two keys differ, as they always do for an AnnData,
  the dictionary has exactly two entries, the gene array under the first key and the
  protein array under the second. When a MuData registers the same name for both
  modalities, the dictionary has the single entry of the protein array. Given the
  sampler's contract, with \<open>n_samples > 1\<close> each array has the shape cells by features by
  samples (the sample axis last), and cells by features otherwise; the features are the
  requested genes or proteins.
\<close>

theorem posterior_predictive_sample_mapping:
  assumes nb: "gene_likelihood self = ''nb''"
    and valid: "validate_anndata self (adata_arg kw) = Inr (ad, ws)"
    and scdl: "scdl = make_data_loader self ad (indices kw) (batch_size kw)"
    and ne: "scdl \<noteq> []"
    and ok: "sample_ok self (n_samples kw) (length (var_names ad))
               (length (protein_column_names self)) scdl"
    and keys: "kind ad = AnnData \<and> kr = ''rna'' \<and> kp = ''protein'' \<or>
               kind ad = MuData \<and> modalities self = Some (kr, kp)"
    and cells: "c = cell_offset scdl (length scdl)"
    and genes: "g = length (select (name_mask (gene_list kw) (var_names ad)) (var_names ad))"
    and proteins: "p = length (select (name_mask (protein_list kw) (protein_column_names self))
                               (protein_column_names self))"
  shows "\<exists>rna protein m.
           fst (posterior_predictive_sample self kw) = Inr (m, ws) \<and>
           m = Map.empty(kr \<mapsto> rna, kp \<mapsto> protein) \<and>
           (kind ad = AnnData \<longrightarrow> kr \<noteq> kp) \<and>
           (kr \<noteq> kp \<longrightarrow> m kr = Some rna \<and> m kp = Some protein \<and> dom m = {kr, kp} \<and>
                        card (dom m) = 2) \<and>
           (kr = kp \<longrightarrow> m = Map.empty(kp \<mapsto> protein) \<and> dom m = {kp}) \<and>
           (if n_samples kw > 1
            then \<exists>r q. rna = A3 r \<and> protein = A3 q \<and>
                       has_shape3 r c g (n_samples kw) \<and> has_shape3 q c p (n_samples kw)
            else \<exists>r q. rna = A2 r \<and> protein = A2 q \<and> has_shape2 r c g \<and> has_shape2 q c p)"
proof -
  let ?n = "n_samples kw"
  define samples where "samples = map (\<lambda>(k, t). module_sample self k t ?n) (enumerate 0 scdl)"
  define cs where "cs = map (\<lambda>t. length (X_KEY t)) scdl"
  have cs_sum: "sum_list cs = c"
    by (simp add: cs_def cells cell_offset_def)
  have okk: "has_shape3 (fst (module_sample self k (scdl ! k) ?n)) (if ?n > 1 then ?n else 1)
                 (length (X_KEY (scdl ! k))) (length (var_names ad)) \<and>
             has_shape3 (snd (module_sample self k (scdl ! k) ?n)) (if ?n > 1 then ?n else 1)
                 (length (X_KEY (scdl ! k))) (length (protein_column_names self))"
    if "k < length scdl" for k
  proof -
    have "(k, scdl ! k) \<in> set (enumerate 0 scdl)"
      using that by (simp add: in_set_enumerate_eq)
    with ok show ?thesis
      unfolding sample_ok_def list_all_iff by auto
  qed
  have r: "\<forall>k<length (map fst samples).
             has_shape3 (map fst samples ! k) (if ?n > 1 then ?n else 1) (cs ! k) (length (var_names ad))"
    using okk by (simp add: samples_def cs_def nth_enumerate_eq)
  have q: "\<forall>k<length (map snd samples).
             has_shape3 (map snd samples ! k) (if ?n > 1 then ?n else 1) (cs ! k)
               (length (protein_column_names self))"
    using okk by (simp add: samples_def cs_def nth_enumerate_eq)
  have lr: "length cs = length (map fst samples)" and lq: "length cs = length (map snd samples)"
    by (simp_all add: samples_def cs_def)
  note R = sample_arrays_shape[OF r lr, of "name_mask (gene_list kw) (var_names ad)", unfolded cs_sum genes[symmetric]]
  note Q = sample_arrays_shape[OF q lq, of "name_mask (protein_list kw) (protein_column_names self)",
              unfolded cs_sum proteins[symmetric]]
  let ?rna = "sample_arrays ?n (name_mask (gene_list kw) (var_names ad)) (map fst samples)"
  let ?pro = "sample_arrays ?n (name_mask (protein_list kw) (protein_column_names self)) (map snd samples)"
  have body: "posterior_predictive_sample self kw =
                (if kind ad = AnnData
                 then (Inr (Map.empty(''rna'' \<mapsto> ?rna, ''protein'' \<mapsto> ?pro), ws),
                       [ValidatedData, MadeLoader] @ map DrewSample [0..<length scdl])
                 else (case modalities self of
                         None \<Rightarrow> (Inl (TypeError ''NoneType object is not subscriptable''),
                                  [ValidatedData, MadeLoader] @ map DrewSample [0..<length scdl])
                       | Some (rna_layer, protein_layer) \<Rightarrow>
                           (Inr (Map.empty(rna_layer \<mapsto> ?rna, protein_layer \<mapsto> ?pro), ws),
                            [ValidatedData, MadeLoader] @ map DrewSample [0..<length scdl])))"
    using nb valid ne
    by (simp add: posterior_predictive_sample_def scdl samples_def Let_def split: option.splits prod.splits)
  have res: "fst (posterior_predictive_sample self kw) = Inr (Map.empty(kr \<mapsto> ?rna, kp \<mapsto> ?pro), ws)"
    using keys
  proof
    assume "kind ad = AnnData \<and> kr = ''rna'' \<and> kp = ''protein''"
    then show ?thesis by (simp add: body)
  next
    assume "kind ad = MuData \<and> modalities self = Some (kr, kp)"
    then show ?thesis by (simp add: body)
  qed
  let ?m = "Map.empty(kr \<mapsto> ?rna, kp \<mapsto> ?pro)"
  have an: "kind ad = AnnData \<longrightarrow> kr \<noteq> kp"
    using keys by auto
  have two: "kr \<noteq> kp \<longrightarrow> ?m kr = Some ?rna \<and> ?m kp = Some ?pro \<and> dom ?m = {kr, kp} \<and>
               card (dom ?m) = 2"
  proof
    assume d: "kr \<noteq> kp"
    have "dom ?m = {kr, kp}" by auto
    moreover have "card {kr, kp} = 2" using d by simp
    ultimately show "?m kr = Some ?rna \<and> ?m kp = Some ?pro \<and> dom ?m = {kr, kp} \<and>
               card (dom ?m) = 2"
      using d by simp
  qed
  have one: "kr = kp \<longrightarrow> ?m = Map.empty(kp \<mapsto> ?pro) \<and> dom ?m = {kp}"
    by simp
  have shapes: "if ?n > 1
            then \<exists>r q. ?rna = A3 r \<and> ?pro = A3 q \<and>
                       has_shape3 r c g ?n \<and> has_shape3 q c p ?n
            else \<exists>r q. ?rna = A2 r \<and> ?pro = A2 q \<and> has_shape2 r c g \<and> has_shape2 q c p"
  proof (cases "?n > 1")
    case True
    from R True obtain r where r: "?rna = A3 r" "has_shape3 r c g ?n" by auto
    from Q True obtain q where q: "?pro = A3 q" "has_shape3 q c p ?n" by auto
    from r q True show ?thesis by auto
  next
    case False
    from R False obtain r where r: "?rna = A2 r" "has_shape2 r c g" by auto
    from Q False obtain q where q: "?pro = A2 q" "has_shape2 q c p" by auto
    from r q False show ?thesis by auto
  qed
  show ?thesis
  proof (intro exI conjI)
    show "fst (posterior_predictive_sample self kw) = Inr (?m, ws)" by (rule res)
    show "?m = Map.empty(kr \<mapsto> ?rna, kp \<mapsto> ?pro)" by (rule refl)
    show "kind ad = AnnData \<longrightarrow> kr \<noteq> kp" by (rule an)
    show "kr \<noteq> kp \<longrightarrow> ?m kr = Some ?rna \<and> ?m kp = Some ?pro \<and> dom ?m = {kr, kp} \<and>
               card (dom ?m) = 2" by (rule two)
    show "kr = kp \<longrightarrow> ?m = Map.empty(kp \<mapsto> ?pro) \<and> dom ?m = {kp}" by (rule one)
    show "if ?n > 1
            then \<exists>r q. ?rna = A3 r \<and> ?pro = A3 q \<and>
                       has_shape3 r c g ?n \<and> has_shape3 q c p ?n
            else \<exists>r q. ?rna = A2 r \<and> ?pro = A2 q \<and> has_shape2 r c g \<and> has_shape2 q c p"
      by (rule shapes)
  qed
qed

theorem posterior_predictive_sample_mapping_witness:
  "\<exists>rna protein m.
     fst (posterior_predictive_sample (demo_model\<lparr>modalities := Some (''rna'', ''prot'')\<rparr>)
            (demo_kwargs\<lparr>adata_arg := Some (demo_adata\<lparr>kind := MuData\<rparr>), n_samples := 2\<rparr>)) =
       Inr (m, []) \<and>
     m ''rna'' = Some rna \<and> m ''prot'' = Some protein \<and> dom m = {''rna'', ''prot''} \<and>
     card (dom m) = 2 \<and>
     (\<exists>r q. rna = A3 r \<and> protein = A3 q \<and> has_shape3 r 2 2 2 \<and> has_shape3 q 2 2 2)"
proof -
  let ?self = "demo_model\<lparr>modalities := Some (''rna'', ''prot'')\<rparr>"
  let ?ad = "demo_adata\<lparr>kind := MuData\<rparr>"
  let ?kw = "demo_kwargs\<lparr>adata_arg := Some ?ad, n_samples := 2\<rparr>"
  let ?scdl = "[demo_tensors 0, demo_tensors 1]"
  have nb: "gene_likelihood ?self = ''nb''"
    by (simp add: demo_model_def)
  have valid: "validate_anndata ?self (adata_arg ?kw) = Inr (?ad, [])"
    by (simp add: validate_anndata_def demo_model_def)
  have scdl: "?scdl = make_data_loader ?self ?ad (indices ?kw) (batch_size ?kw)"
    by (simp add: demo_model_def demo_kwargs_def)
  have ne: "?scdl \<noteq> []" by simp
  have ok: "sample_ok ?self (n_samples ?kw) (length (var_names ?ad))
              (length (protein_column_names ?self)) ?scdl"
    by (simp add: sample_ok_def demo_model_def demo_adata_def demo_tensors_def
          has_shape3_def has_shape2_def numeral_2_eq_2)
  have keys: "kind ?ad = AnnData \<and> ''rna'' = ''rna'' \<and> ''prot'' = ''protein'' \<or>
              kind ?ad = MuData \<and> modalities ?self = Some (''rna'', ''prot'')"
    by simp
  have cells: "2 = cell_offset ?scdl (length ?scdl)"
    by (simp add: cell_offset_def demo_tensors_def)
  have genes: "2 = length (select (name_mask (gene_list ?kw) (var_names ?ad)) (var_names ?ad))"
    by (simp add: name_mask_def demo_kwargs_def demo_adata_def)
  have proteins: "2 = length (select (name_mask (protein_list ?kw) (protein_column_names ?self))
                               (protein_column_names ?self))"
    by (simp add: name_mask_def demo_kwargs_def demo_model_def)
  have n: "n_samples ?kw > 1" "n_samples ?kw = 2" by simp_all
  have d: "''rna'' \<noteq> ''prot''" by simp
  note t = posterior_predictive_sample_mapping[OF nb valid scdl ne ok keys cells genes proteins]
  from t obtain rna protein m where
    r: "fst (posterior_predictive_sample ?self ?kw) = Inr (m, [])"
    and two: "''rna'' \<noteq> ''prot'' \<longrightarrow> m ''rna'' = Some rna \<and> m ''prot'' = Some protein \<and>
                dom m = {''rna'', ''prot''} \<and> card (dom m) = 2"
    and sh: "if n_samples ?kw > 1
            then \<exists>r q. rna = A3 r \<and> protein = A3 q \<and>
                       has_shape3 r 2 2 (n_samples ?kw) \<and> has_shape3 q 2 2 (n_samples ?kw)
            else \<exists>r q. rna = A2 r \<and> protein = A2 q \<and> has_shape2 r 2 2 \<and> has_shape2 q 2 2"
    by (elim exE conjE)
  from sh have sh': "\<exists>r q. rna = A3 r \<and> protein = A3 q \<and> has_shape3 r 2 2 2 \<and> has_shape3 q 2 2 2"
    unfolding n by simp
  from two d have e: "m ''rna'' = Some rna \<and> m ''prot'' = Some protein \<and>
                dom m = {''rna'', ''prot''} \<and> card (dom m) = 2" by (rule mp)
  show ?thesis
    apply (rule exI[of _ rna], rule exI[of _ protein], rule exI[of _ m])
    using r e sh' by (intro conjI) simp_all
qed

text \<open>
  C10 as stated (always two arrays) fails for a MuData whose two modalities are registered
  under one name: the second entry of the literal replaces the first, and the dictionary
  returned holds the protein array alone. In the example model the sampler gives the gene
  rows \<open>[1, 2]\<close> and the protein rows \<open>[3, 4]\<close>; under the modality names \<open>(m, m)\<close> the result
  maps \<open>m\<close> to the protein rows and the gene rows are gone.
\<close>

theorem posterior_predictive_sample_same_key_counterexample:
  "fst (posterior_predictive_sample (demo_model\<lparr>modalities := Some (''m'', ''m'')\<rparr>)
          (demo_kwargs\<lparr>adata_arg := Some (demo_adata\<lparr>kind := MuData\<rparr>)\<rparr>)) =
     Inr (Map.empty(''m'' \<mapsto> A2 [[3, 4], [3, 4]]), [])"
  by (simp add: posterior_predictive_sample_def validate_anndata_def demo_model_def demo_kwargs_def
        demo_adata_def demo_tensors_def name_mask_def sample_arrays_def last_axis_def Let_def)

subsection \<open>Several samples without the mean\<close>

lemma forced_return_numpy:
  "n_samples kw > 1 \<Longrightarrow> return_mean kw = False \<Longrightarrow>
   effective_return_numpy (kw\<lparr>return_numpy := rn\<rparr>) = Some True"
  by (simp add: effective_return_numpy_def forced_numpy_def)

lemma forced_numpy_warning:
  "n_samples kw > 1 \<Longrightarrow> return_mean kw = False \<Longrightarrow>
   numpy_warning (kw\<lparr>return_numpy := rn\<rparr>) = (if rn = Some False then [return_numpy_warning] else [])"
  by (simp add: numpy_warning_def forced_numpy_def return_numpy_warning_def)

lemma minibatch_return_numpy:
  "px_scale_minibatch self (kw\<lparr>return_numpy := rn\<rparr>) = px_scale_minibatch self kw"
  "py_scale_minibatch self (kw\<lparr>return_numpy := rn\<rparr>) = py_scale_minibatch self kw"
  "py_mixing_minibatch self (kw\<lparr>return_numpy := rn\<rparr>) = py_mixing_minibatch self kw"
  by (simp_all add: fun_eq_iff px_scale_minibatch_def py_scale_minibatch_def py_mixing_minibatch_def
        px_scale_sum_def py_scale_sum_def py_mixing_sum_def gene_value_def protein_value_def)

lemma gne_forced:
  assumes "n_samples kw > 1" "return_mean kw = False"
  shows "get_normalized_expression self (kw\<lparr>return_numpy := rn\<rparr>) =
     (case validate_anndata self (adata_arg kw) of
        Inl e \<Rightarrow> Inl e
      | Inr (ad, ws) \<Rightarrow>
         (case get_batch_code_from_category self ad (as_list (transform_batch kw)) of
            Inl e \<Rightarrow> Inl e
          | Inr tb \<Rightarrow>
              if make_data_loader self ad (Some (requested_cells self kw ad)) (batch_size kw) = []
              then Inl (RuntimeError ''torch.cat(): expected a non-empty list of Tensors'')
              else Inr ((nan_if_empty tb (Array (assemble (n_samples kw) (return_mean kw)
                                 (map (\<lambda>(k, t). px_scale_minibatch self kw
                                         (name_mask (gene_list kw) (var_names ad)) tb k t)
                                   (enumerate 0 (make_data_loader self ad
                                       (Some (requested_cells self kw ad)) (batch_size kw)))))),
                         nan_if_empty tb (Array (assemble (n_samples kw) (return_mean kw)
                                 (map (\<lambda>(k, t). py_scale_minibatch self kw
                                         (name_mask (protein_list kw) (protein_column_names self)) tb k t)
                                   (enumerate 0 (make_data_loader self ad
                                       (Some (requested_cells self kw ad)) (batch_size kw))))))),
                        ws @ (if rn = Some False then [return_numpy_warning] else []))))"
  using assms
  by (simp add: get_normalized_expression_def requested_cells_def forced_numpy_warning
        forced_return_numpy minibatch_return_numpy Let_def
        split: sum.splits prod.splits option.splits)

lemma gpfp_forced:
  assumes "n_samples kw > 1" "return_mean kw = False"
  shows "get_protein_foreground_probability self (kw\<lparr>return_numpy := rn\<rparr>) =
     (case validate_anndata self (adata_arg kw) of
        Inl e \<Rightarrow> Inl e
      | Inr (ad, ws) \<Rightarrow>
         (case get_batch_code_from_category self (self_adata self) (as_list (transform_batch kw)) of
            Inl e \<Rightarrow> Inl e
          | Inr tb \<Rightarrow>
              if make_data_loader self ad (indices kw) (batch_size kw) = []
              then Inl (RuntimeError ''torch.cat(): expected a non-empty list of Tensors'')
              else Inr (nan_if_empty tb (Array (amap (\<lambda>x. 1 - x) (assemble (n_samples kw) (return_mean kw)
                                 (map (\<lambda>(k, t). py_mixing_minibatch self kw
                                         (name_mask (protein_list kw) (protein_column_names self)) tb k t)
                                   (enumerate 0 (make_data_loader self ad (indices kw) (batch_size kw))))))),
                        ws @ (if rn = Some False then [return_numpy_warning] else []))))"
  using assms
  by (simp add: get_protein_foreground_probability_def forced_numpy_warning
        forced_return_numpy minibatch_return_numpy Let_def
        split: sum.splits prod.splits option.splits)

lemma is_array_nan_if_empty: "is_array (nan_if_empty tb r) = is_array r"
  by (simp add: nan_if_empty_def)

lemma nan_if_nonempty: "tb \<noteq> [] \<Longrightarrow> nan_if_empty tb r = r"
  by (simp add: nan_if_empty_def)

lemma assemble_samples:
  "n > 1 \<Longrightarrow> assemble n False accs = A3 (permute_1_2_0 (cat_dim1 n accs))"
  by (simp add: assemble_def)

text \<open>
  C6. With \<open>n_samples > 1\<close> and \<open>return_mean=False\<close>, whatever \<open>return_numpy\<close> the caller
  passes, \<^verbatim>\<open>get_normalized_expression\<close> and \<^verbatim>\<open>get_protein_foreground_probability\<close> return
  arrays and never a labelled table. Asking for \<open>return_numpy=False\<close> gives exactly the
  outcome of \<open>return_numpy=True\<close> with one \<open>UserWarning\<close> added: the warning is no failure.
  Whenever the data are valid, the transform batches resolve to a non-empty list and the
  loader yields a minibatch, the call returns three-dimensional arrays with that warning.
\<close>

theorem multi_sample_returns_arrays:
  assumes n: "n_samples kw > 1" and rm: "return_mean kw = False"
  shows "(\<forall>rn g p ws. get_normalized_expression self (kw\<lparr>return_numpy := rn\<rparr>) = Inr ((g, p), ws)
            \<longrightarrow> is_array g \<and> is_array p) \<and>
         (\<forall>rn f ws. get_protein_foreground_probability self (kw\<lparr>return_numpy := rn\<rparr>) = Inr (f, ws)
            \<longrightarrow> is_array f) \<and>
         get_normalized_expression self (kw\<lparr>return_numpy := Some False\<rparr>) =
           also_warns return_numpy_warning
             (get_normalized_expression self (kw\<lparr>return_numpy := Some True\<rparr>)) \<and>
         get_protein_foreground_probability self (kw\<lparr>return_numpy := Some False\<rparr>) =
           also_warns return_numpy_warning
             (get_protein_foreground_probability self (kw\<lparr>return_numpy := Some True\<rparr>)) \<and>
         (\<forall>ad ws tb.
            validate_anndata self (adata_arg kw) = Inr (ad, ws) \<and>
            get_batch_code_from_category self ad (as_list (transform_batch kw)) = Inr tb \<and>
            tb \<noteq> [] \<and>
            make_data_loader self ad (Some (requested_cells self kw ad)) (batch_size kw) \<noteq> []
            \<longrightarrow> (\<exists>g p. get_normalized_expression self (kw\<lparr>return_numpy := Some False\<rparr>) =
                         Inr ((Array (A3 g), Array (A3 p)), ws @ [return_numpy_warning]))) \<and>
         (\<forall>ad ws tb.
            validate_anndata self (adata_arg kw) = Inr (ad, ws) \<and>
            get_batch_code_from_category self (self_adata self) (as_list (transform_batch kw)) = Inr tb \<and>
            tb \<noteq> [] \<and>
            make_data_loader self ad (indices kw) (batch_size kw) \<noteq> []
            \<longrightarrow> (\<exists>f. get_protein_foreground_probability self (kw\<lparr>return_numpy := Some False\<rparr>) =
                       Inr (Array (A3 f), ws @ [return_numpy_warning])))"
proof (intro conjI allI impI)
  fix rn g p ws
  assume "get_normalized_expression self (kw\<lparr>return_numpy := rn\<rparr>) = Inr ((g, p), ws)"
  then show "is_array g" "is_array p"
    by (auto simp: gne_forced[OF n rm] is_array_nan_if_empty split: sum.splits prod.splits if_splits)
next
  fix rn f ws
  assume "get_protein_foreground_probability self (kw\<lparr>return_numpy := rn\<rparr>) = Inr (f, ws)"
  then show "is_array f"
    by (auto simp: gpfp_forced[OF n rm] is_array_nan_if_empty split: sum.splits prod.splits if_splits)
next
  show "get_normalized_expression self (kw\<lparr>return_numpy := Some False\<rparr>) =
           also_warns return_numpy_warning
             (get_normalized_expression self (kw\<lparr>return_numpy := Some True\<rparr>))"
    by (simp add: gne_forced[OF n rm] also_warns_def split: sum.splits prod.splits)
next
  show "get_protein_foreground_probability self (kw\<lparr>return_numpy := Some False\<rparr>) =
           also_warns return_numpy_warning
             (get_protein_foreground_probability self (kw\<lparr>return_numpy := Some True\<rparr>))"
    by (simp add: gpfp_forced[OF n rm] also_warns_def split: sum.splits prod.splits)
next
  fix ad ws tb
  assume "validate_anndata self (adata_arg kw) = Inr (ad, ws) \<and>
            get_batch_code_from_category self ad (as_list (transform_batch kw)) = Inr tb \<and>
            tb \<noteq> [] \<and>
            make_data_loader self ad (Some (requested_cells self kw ad)) (batch_size kw) \<noteq> []"
  then show "\<exists>g p. get_normalized_expression self (kw\<lparr>return_numpy := Some False\<rparr>) =
                         Inr ((Array (A3 g), Array (A3 p)), ws @ [return_numpy_warning])"
    using n rm by (simp add: gne_forced[OF n rm] assemble_samples nan_if_nonempty)
next
  fix ad ws tb
  assume "validate_anndata self (adata_arg kw) = Inr (ad, ws) \<and>
            get_batch_code_from_category self (self_adata self) (as_list (transform_batch kw)) = Inr tb \<and>
            tb \<noteq> [] \<and>
            make_data_loader self ad (indices kw) (batch_size kw) \<noteq> []"
  then show "\<exists>f. get_protein_foreground_probability self (kw\<lparr>return_numpy := Some False\<rparr>) =
                       Inr (Array (A3 f), ws @ [return_numpy_warning])"
    using n rm by (simp add: gpfp_forced[OF n rm] assemble_samples nan_if_nonempty)
qed

theorem multi_sample_returns_arrays_witness:
  "(\<exists>g p. get_normalized_expression demo_model
             (demo_kwargs\<lparr>n_samples := 2, return_mean := False, return_numpy := Some False\<rparr>) =
           Inr ((Array (A3 g), Array (A3 p)), [return_numpy_warning])) \<and>
   (\<exists>f. get_protein_foreground_probability demo_model
             (demo_kwargs\<lparr>n_samples := 2, return_mean := False, return_numpy := Some False\<rparr>) =
           Inr (Array (A3 f), [return_numpy_warning]))"
proof -
  let ?kw = "demo_kwargs\<lparr>n_samples := 2, return_mean := False\<rparr>"
  have n: "n_samples ?kw > 1" and rm: "return_mean ?kw = False" by simp_all
  have v: "validate_anndata demo_model (adata_arg ?kw) = Inr (demo_adata, [])"
    by (simp add: validate_anndata_def demo_model_def demo_kwargs_def)
  have c: "get_batch_code_from_category demo_model demo_adata (as_list (transform_batch ?kw)) = Inr [None]"
    "get_batch_code_from_category demo_model (self_adata demo_model) (as_list (transform_batch ?kw)) = Inr [None]"
    by (simp_all add: demo_model_def demo_kwargs_def demo_codes_def)
  have l: "make_data_loader demo_model demo_adata (Some (requested_cells demo_model ?kw demo_adata))
             (batch_size ?kw) \<noteq> []"
    "make_data_loader demo_model demo_adata (indices ?kw) (batch_size ?kw) \<noteq> []"
    by (simp_all add: demo_model_def demo_kwargs_def requested_cells_def demo_adata_def)
  note t = multi_sample_returns_arrays[OF n rm, of demo_model]
  from t have a: "\<forall>ad ws tb.
            validate_anndata demo_model (adata_arg ?kw) = Inr (ad, ws) \<and>
            get_batch_code_from_category demo_model ad (as_list (transform_batch ?kw)) = Inr tb \<and>
            tb \<noteq> [] \<and>
            make_data_loader demo_model ad (Some (requested_cells demo_model ?kw ad)) (batch_size ?kw) \<noteq> []
            \<longrightarrow> (\<exists>g p. get_normalized_expression demo_model (?kw\<lparr>return_numpy := Some False\<rparr>) =
                         Inr ((Array (A3 g), Array (A3 p)), ws @ [return_numpy_warning]))"
    by blast
  from t have b: "\<forall>ad ws tb.
            validate_anndata demo_model (adata_arg ?kw) = Inr (ad, ws) \<and>
            get_batch_code_from_category demo_model (self_adata demo_model) (as_list (transform_batch ?kw)) = Inr tb \<and>
            tb \<noteq> [] \<and>
            make_data_loader demo_model ad (indices ?kw) (batch_size ?kw) \<noteq> []
            \<longrightarrow> (\<exists>f. get_protein_foreground_probability demo_model (?kw\<lparr>return_numpy := Some False\<rparr>) =
                       Inr (Array (A3 f), ws @ [return_numpy_warning]))"
    by blast
  have a': "\<exists>g p. get_normalized_expression demo_model (?kw\<lparr>return_numpy := Some False\<rparr>) =
                         Inr ((Array (A3 g), Array (A3 p)), [] @ [return_numpy_warning])"
    using a[rule_format, of demo_adata "[]" "[None]"] v c(1) l(1) by blast
  have b': "\<exists>f. get_protein_foreground_probability demo_model (?kw\<lparr>return_numpy := Some False\<rparr>) =
                       Inr (Array (A3 f), [] @ [return_numpy_warning])"
    using b[rule_format, of demo_adata "[]" "[None]"] v c(2) l(2) by blast
  from a' b' show ?thesis by simp
qed

subsection \<open>A single transform batch\<close>

lemma minibatch_transform_batch:
  "px_scale_minibatch self (kw\<lparr>transform_batch := x\<rparr>) = px_scale_minibatch self kw"
  "py_scale_minibatch self (kw\<lparr>transform_batch := x\<rparr>) = py_scale_minibatch self kw"
  "py_mixing_minibatch self (kw\<lparr>transform_batch := x\<rparr>) = py_mixing_minibatch self kw"
  by (simp_all add: fun_eq_iff px_scale_minibatch_def py_scale_minibatch_def py_mixing_minibatch_def
        px_scale_sum_def py_scale_sum_def py_mixing_sum_def gene_value_def protein_value_def)

lemma corr_mats_loop_transform_batch:
  "corr_mats_loop self (kw\<lparr>transform_batch := x\<rparr>) pbs ws = corr_mats_loop self kw pbs ws"
  by (induction self kw pbs ws rule: corr_mats_loop.induct)
     (simp_all add: Let_def split: sum.splits prod.splits)

lemma codes_single_as_list:
  assumes "is_iterable (Single v) \<longrightarrow>
             (\<forall>ad. get_batch_code_from_category self ad (Single v) =
                   get_batch_code_from_category self ad (Many [v]))"
  shows "get_batch_code_from_category self ad (as_list (Single v)) =
         get_batch_code_from_category self ad (as_list (Many [v]))"
  using assms by (cases "is_iterable (Single v)") simp_all

text \<open>
  C5. For a single transform batch \<open>v\<close>, each of \<^verbatim>\<open>get_normalized_expression\<close>,
  \<^verbatim>\<open>get_protein_foreground_probability\<close> and \<^verbatim>\<open>get_feature_correlation_matrix\<close> returns
  exactly what it returns for the one-element list \<open>[v]\<close>. \<open>None\<close> and a number are wrapped
  into the list in the routine itself. A category name is a Python string, which is
  iterable and so reaches the helper \<^verbatim>\<open>_get_batch_code_from_category\<close> as it is; for it the
  statement rests on the helper reading a bare name as the list of that name, which is
  the hypothesis (it says nothing for \<open>None\<close> and numbers).
\<close>

theorem single_transform_batch_as_list:
  assumes helper: "is_iterable (Single v) \<longrightarrow>
             (\<forall>ad. get_batch_code_from_category self ad (Single v) =
                   get_batch_code_from_category self ad (Many [v]))"
  shows "(\<not> is_iterable (Single v) \<longrightarrow> as_list (Single v) = Many [v]) \<and>
         get_normalized_expression self (kw\<lparr>transform_batch := Single v\<rparr>) =
           get_normalized_expression self (kw\<lparr>transform_batch := Many [v]\<rparr>) \<and>
         get_protein_foreground_probability self (kw\<lparr>transform_batch := Single v\<rparr>) =
           get_protein_foreground_probability self (kw\<lparr>transform_batch := Many [v]\<rparr>) \<and>
         get_feature_correlation_matrix self (kw\<lparr>transform_batch := Single v\<rparr>) =
           get_feature_correlation_matrix self (kw\<lparr>transform_batch := Many [v]\<rparr>)"
proof -
  note c = codes_single_as_list[OF helper]
  have a: "get_normalized_expression self (kw\<lparr>transform_batch := Single v\<rparr>) =
           get_normalized_expression self (kw\<lparr>transform_batch := Many [v]\<rparr>)"
    by (simp add: get_normalized_expression_def minibatch_transform_batch c numpy_warning_def
          forced_numpy_def effective_return_numpy_def Let_def
          del: as_list.simps cong: sum.case_cong option.case_cong prod.case_cong if_cong)
  have b: "get_protein_foreground_probability self (kw\<lparr>transform_batch := Single v\<rparr>) =
           get_protein_foreground_probability self (kw\<lparr>transform_batch := Many [v]\<rparr>)"
    by (simp add: get_protein_foreground_probability_def minibatch_transform_batch c
          numpy_warning_def forced_numpy_def effective_return_numpy_def Let_def
          del: as_list.simps cong: sum.case_cong option.case_cong prod.case_cong if_cong)
  have d: "get_feature_correlation_matrix self (kw\<lparr>transform_batch := Single v\<rparr>) =
           get_feature_correlation_matrix self (kw\<lparr>transform_batch := Many [v]\<rparr>)"
    by (simp add: get_feature_correlation_matrix_def corr_mats_loop_transform_batch c Let_def
          del: as_list.simps cong: sum.case_cong option.case_cong prod.case_cong if_cong)
  from a b d show ?thesis by simp
qed

theorem single_transform_batch_as_list_witness:
  "get_normalized_expression demo_model (demo_kwargs\<lparr>transform_batch := Single (CatStr ''b1'')\<rparr>) =
     get_normalized_expression demo_model (demo_kwargs\<lparr>transform_batch := Many [CatStr ''b1'']\<rparr>) \<and>
   get_protein_foreground_probability demo_model (demo_kwargs\<lparr>transform_batch := Single (CatNum 1)\<rparr>) =
     get_protein_foreground_probability demo_model (demo_kwargs\<lparr>transform_batch := Many [CatNum 1]\<rparr>) \<and>
   get_feature_correlation_matrix demo_model (demo_kwargs\<lparr>transform_batch := Single CatNone\<rparr>) =
     get_feature_correlation_matrix demo_model (demo_kwargs\<lparr>transform_batch := Many [CatNone]\<rparr>)"
proof -
  have h: "is_iterable (Single v) \<longrightarrow>
             (\<forall>ad. get_batch_code_from_category demo_model ad (Single v) =
                   get_batch_code_from_category demo_model ad (Many [v]))" for v
    by (simp add: demo_model_def demo_codes_def)
  from single_transform_batch_as_list[OF h, of "CatStr ''b1''" demo_kwargs]
       single_transform_batch_as_list[OF h, of "CatNum 1" demo_kwargs]
       single_transform_batch_as_list[OF h, of CatNone demo_kwargs]
  show ?thesis by blast
qed

subsection \<open>Differential expression\<close>

lemmas demo_defs =
  get_normalized_expression_def validate_anndata_def demo_model_def demo_kwargs_def demo_adata_def
  demo_tensors_def demo_forward_def demo_codes_def name_mask_def numpy_warning_def forced_numpy_def
  effective_return_numpy_def px_scale_minibatch_def py_scale_minibatch_def px_scale_sum_def
  py_scale_sum_def gene_value_def protein_value_def tmap_def tmap2_def last_axis_def zeros_like_def
  stack_def assemble_def Let_def

lemma demo_gne_de:
  "get_normalized_expression demo_model
     (demo_kwargs\<lparr>return_numpy := Some True, n_samples := 1, gene_list := None, protein_list := None\<rparr>) =
   Inr ((Array (A2 [[1/4, 3/4], [1/4, 3/4]]), Array (A2 [[1, 3], [1, 3]])), [])"
  by (simp add: demo_defs nan_if_empty_def)









subsection \<open>Empirical prior for the protein background\<close>

lemma fit_cells_Inr:
  assumes "\<forall>j<length ics. fit_recovers (fit (fst (ics ! j)) (map (\<lambda>v. ln (1 + v)) (snd (ics ! j))))"
  shows "\<exists>mus scales. fit_cells fit ics = Inr (mus, scales) \<and>
           length mus = length ics \<and> length scales = length ics \<and>
           (\<forall>j<length ics. cell_background (fit (fst (ics ! j)) (map (\<lambda>v. ln (1 + v)) (snd (ics ! j))))
                             = Inr (mus ! j, scales ! j))"
  using assms
proof (induction ics)
  case Nil
  then show ?case by simp
next
  case (Cons ic ics)
  obtain i c where ic: "ic = (i, c)" by (cases ic)
  from Cons.prems have "fit_recovers (fit i (map (\<lambda>v. ln (1 + v)) c))"
    using ic by (auto dest: spec[of _ 0])
  then obtain mu s where h: "cell_background (fit i (map (\<lambda>v. ln (1 + v)) c)) = Inr (mu, s)"
    by (auto simp: fit_recovers_def split: sum.splits)
  have "\<forall>j<length ics. fit_recovers (fit (fst (ics ! j)) (map (\<lambda>v. ln (1 + v)) (snd (ics ! j))))"
    using Cons.prems by (auto dest: spec[of _ "Suc _"])
  from Cons.IH[OF this] obtain mus scales where
    t: "fit_cells fit ics = Inr (mus, scales)" "length mus = length ics" "length scales = length ics"
       "\<forall>j<length ics. cell_background (fit (fst (ics ! j)) (map (\<lambda>v. ln (1 + v)) (snd (ics ! j))))
                             = Inr (mus ! j, scales ! j)"
    by blast
  have "fit_cells fit (ic # ics) = Inr (mu # mus, s # scales)"
    by (simp add: ic h t(1))
  moreover have "\<forall>j<length (ic # ics).
      cell_background (fit (fst ((ic # ics) ! j)) (map (\<lambda>v. ln (1 + v)) (snd ((ic # ics) ! j))))
        = Inr ((mu # mus) ! j, (s # scales) ! j)"
  proof (intro allI impI)
    fix j assume "j < length (ic # ics)"
    then show "cell_background (fit (fst ((ic # ics) ! j)) (map (\<lambda>v. ln (1 + v)) (snd ((ic # ics) ! j))))
        = Inr ((mu # mus) ! j, (s # scales) ! j)"
      using h t(4) ic by (cases j) auto
  qed
  ultimately show ?case using t(2,3) by auto
qed

lemma sqrt_div_square:
  "sqrt (x / (real n)\<^sup>2) = sqrt x / real n"
  by (simp add: real_sqrt_divide)

lemma batch_prior_empty:
  "filter (\<lambda>c. c = b) (batch reg) = [] \<Longrightarrow> batch_prior reg n b = Inr (0, 1)"
  by (simp add: batch_prior_def)

lemma batch_prior_too_few:
  assumes "filter (\<lambda>c. c = b) (batch reg) \<noteq> []" "batch_mask reg = Some m"
    "length (filter (\<lambda>x. x) (m b)) < 5"
  shows "batch_prior reg n b = Inr (0, 0.05)"
  using assms by (simp add: batch_prior_def Let_def)

lemma batch_prior_fitted:
  assumes ne: "filter (\<lambda>c. c = b) (batch reg) \<noteq> []"
    and rows: "batch_rows reg b \<noteq> []"
    and mask: "batch_mask reg = None \<or> 5 \<le> usable_proteins reg b"
    and n: "n > 0"
    and fits: "\<forall>i<n. fit_recovers (sampled_fit reg b i)"
  shows "\<exists>mus scales. length mus = n \<and> length scales = n \<and>
           (\<forall>i<n. cell_background (sampled_fit reg b i) = Inr (mus ! i, scales ! i)) \<and>
           batch_prior reg n b =
             Inr (sum_list mus / real n, sqrt (sum_list (map (\<lambda>s. s\<^sup>2) scales)) / real n)"
proof -
  let ?rows = "batch_rows reg b"
  let ?cells = "choice (choice_draws reg b) (length ?rows) n"
  let ?ics = "enumerate 0 (map (\<lambda>c. ?rows ! c) ?cells)"
  have len: "length ?ics = n" by (simp add: choice_def)
  have nth: "?ics ! j = (j, ?rows ! (choice_draws reg b j mod length ?rows))" if "j < n" for j
    using that by (simp add: choice_def nth_enumerate_eq)
  have "\<forall>j<length ?ics. fit_recovers (gmm_fit_of reg b (fst (?ics ! j))
            (map (\<lambda>v. ln (1 + v)) (snd (?ics ! j))))"
    using fits by (simp add: len nth sampled_fit_def del: length_enumerate)
  from fit_cells_Inr[OF this] obtain mus scales where
    t: "fit_cells (gmm_fit_of reg b) ?ics = Inr (mus, scales)" "length mus = n" "length scales = n"
       "\<forall>j<n. cell_background (gmm_fit_of reg b (fst (?ics ! j)) (map (\<lambda>v. ln (1 + v)) (snd (?ics ! j))))
                  = Inr (mus ! j, scales ! j)"
    unfolding len by blast
  have c: "\<forall>i<n. cell_background (sampled_fit reg b i) = Inr (mus ! i, scales ! i)"
    using t(4) by (simp add: nth sampled_fit_def)
  have few: "\<not> (case batch_mask reg of None \<Rightarrow> False | Some m \<Rightarrow> length (filter (\<lambda>x. x) (m b)) < 5)"
    using mask by (auto simp: usable_proteins_def split: option.splits)
  have mne: "mus \<noteq> []" using t(2) n by auto
  have "batch_prior reg n b =
          Inr (sum_list mus / real (length mus), sqrt (sum_list (map (\<lambda>s. s\<^sup>2) scales) / real (n\<^sup>2)))"
    using ne rows few t(1) mne
    unfolding batch_prior_def batch_rows_def Let_def
    by (simp split: option.splits)
  then have "batch_prior reg n b =
          Inr (sum_list mus / real n, sqrt (sum_list (map (\<lambda>s. s\<^sup>2) scales)) / real n)"
    using n t(2) by (simp add: sqrt_div_square)
  with t(2,3) c show ?thesis by blast
qed

lemma filter_zip_fst_length:
  "length xs = length ys \<Longrightarrow>
   length (filter (\<lambda>(c, row). c = b) (zip xs ys)) = length (filter (\<lambda>c. c = b) xs)"
  by (induction xs ys rule: list_induct2) simp_all

lemma batch_rows_nonempty:
  assumes "filter (\<lambda>c. c = b) (batch reg) \<noteq> []" "length (pro_exp reg) = length (batch reg)"
  shows "batch_rows reg b \<noteq> []"
proof -
  have "length (filter (\<lambda>(c, row). c = b) (zip (batch reg) (pro_exp reg))) \<noteq> 0"
    using assms by (simp add: filter_zip_fst_length)
  then show ?thesis
    by (auto simp: batch_rows_def Let_def split: option.splits)
qed

lemma batch_prior_Inr:
  assumes n: "n > 0" and fits: "\<forall>i<n. fit_recovers (sampled_fit reg b i)"
  shows "\<exists>v. batch_prior reg n b = Inr v"
proof (cases "filter (\<lambda>c. c = b) (batch reg) = []")
  case True
  from batch_prior_empty[OF this] show ?thesis by blast
next
  case ne: False
  show ?thesis
  proof (cases "batch_mask reg = None \<or> 5 \<le> usable_proteins reg b")
    case False
    then obtain m where m: "batch_mask reg = Some m" "length (filter (\<lambda>x. x) (m b)) < 5"
      by (auto simp: usable_proteins_def split: option.splits)
    from batch_prior_too_few[OF ne m] show ?thesis by blast
  next
    case mask: True
    show ?thesis
    proof (cases "batch_rows reg b = []")
      case True
      then have "batch_prior reg n b = Inr (0, 0.05)"
        using ne mask
        unfolding batch_prior_def batch_rows_def usable_proteins_def Let_def
        by (auto split: option.splits)
      then show ?thesis by blast
    next
      case False
      from batch_prior_fitted[OF ne False mask n fits] show ?thesis by blast
    qed
  qed
qed

lemma priors_loop_Inr:
  assumes "\<forall>b\<in>set bs. \<exists>v. batch_prior reg n b = Inr v"
  shows "\<exists>ps. priors_loop reg n bs = Inr ps"
  using assms by (induction bs) auto

lemma priors_loop_result:
  assumes "priors_loop reg n bs = Inr ps"
  shows "length ps = length bs \<and> (\<forall>j<length bs. batch_prior reg n (bs ! j) = Inr (ps ! j))"
  using assms
proof (induction bs arbitrary: ps)
  case Nil
  then show ?case by simp
next
  case (Cons b bs)
  from Cons.prems obtain p ps' where
    p: "batch_prior reg n b = Inr p" "priors_loop reg n bs = Inr ps'" "ps = p # ps'"
    by (auto split: sum.splits)
  from Cons.IH[OF p(2)] have ih: "length ps' = length bs"
    "\<forall>j<length bs. batch_prior reg n (bs ! j) = Inr (ps' ! j)" by simp_all
  have "batch_prior reg n ((b # bs) ! j) = Inr (ps ! j)" if "j < length (b # bs)" for j
    using that p ih by (cases j) auto
  with ih(1) p(3) show ?case by simp
qed

lemma priors_matrices:
  assumes "get_totalvi_protein_priors self ad reg n = Inr (M, S)"
  shows "has_shape2 M (n_proteins reg) (n_cats reg) \<and> has_shape2 S (n_proteins reg) (n_cats reg) \<and>
         (\<forall>j<n_proteins reg. \<forall>b<n_cats reg. batch_prior reg n b = Inr (M ! j ! b, S ! j ! b))"
proof -
  from assms obtain ps where ps: "priors_loop reg n [0..<n_cats reg] = Inr ps"
    and M: "M = replicate (n_proteins reg) (map fst ps)"
    and S: "S = replicate (n_proteins reg) (map snd ps)"
    by (auto simp: get_totalvi_protein_priors_def split: sum.splits prod.splits list.splits warning.splits)
  from priors_loop_result[OF ps] have l: "length ps = n_cats reg"
    and v: "\<forall>b<n_cats reg. batch_prior reg n b = Inr (ps ! b)" by simp_all
  show ?thesis
    using l v by (simp add: M S has_shape2_def list_all_iff)
qed

lemma priors_returned:
  assumes "validate_anndata self ad = Inr (a, [])"
    and "\<forall>b<n_cats reg. \<exists>v. batch_prior reg n b = Inr v"
  shows "\<exists>M S. get_totalvi_protein_priors self ad reg n = Inr (M, S)"
proof -
  have "\<forall>b\<in>set [0..<n_cats reg]. \<exists>v. batch_prior reg n b = Inr v"
    using assms(2) by simp
  from priors_loop_Inr[OF this] obtain ps where "priors_loop reg n [0..<n_cats reg] = Inr ps" ..
  with assms(1) show ?thesis
    by (simp add: get_totalvi_protein_priors_def)
qed

lemma priors_entry:
  assumes "get_totalvi_protein_priors self ad reg n = Inr (M, S)"
    and "j < n_proteins reg" "b < n_cats reg" "batch_prior reg n b = Inr (x, y)"
  shows "M ! j ! b = x \<and> S ! j ! b = y"
proof -
  from priors_matrices[OF assms(1)] assms(2,3)
  have "batch_prior reg n b = Inr (M ! j ! b, S ! j ! b)" by blast
  with assms(4) show ?thesis by simp
qed






lemma degenerate_or_recovering_returns:
  assumes valid: "validate_anndata self ad = Inr (a, [])"
    and n: "0 < n"
    and others: "\<forall>c<n_cats reg. filter (\<lambda>x. x = c) (batch reg) = [] \<or>
                      (batch_mask reg \<noteq> None \<and> usable_proteins reg c < 5) \<or>
                      (\<forall>i<n. fit_recovers (sampled_fit reg c i))"
  shows "\<exists>M S. get_totalvi_protein_priors self ad reg n = Inr (M, S)"
proof -
  have "\<exists>v. batch_prior reg n c = Inr v" if c: "c < n_cats reg" for c
  proof -
    consider (empty) "filter (\<lambda>x. x = c) (batch reg) = []"
      | (few) "filter (\<lambda>x. x = c) (batch reg) \<noteq> []" "batch_mask reg \<noteq> None" "usable_proteins reg c < 5"
      | (fits) "\<forall>i<n. fit_recovers (sampled_fit reg c i)"
      using others c by blast
    then show ?thesis
    proof cases
      case empty
      from batch_prior_empty[OF this] show ?thesis by blast
    next
      case few
      then obtain m' where "batch_mask reg = Some m'" "length (filter (\<lambda>x. x) (m' c)) < 5"
        by (auto simp: usable_proteins_def)
      from batch_prior_too_few[OF few(1) this] show ?thesis by blast
    next
      case fits
      with n show ?thesis using batch_prior_Inr by blast
    qed
  qed
  then have "\<forall>c<n_cats reg. \<exists>v. batch_prior reg n c = Inr v" by blast
  with valid show ?thesis using priors_returned by blast
qed


lemma demo_validate_none: "validate_anndata demo_model None = Inr (demo_adata, [])"
  by (simp add: validate_anndata_def demo_model_def)



lemma cell_background_Fitted:
  "0 \<le> (if m1 < m0 then c1 else c0) \<Longrightarrow>
   cell_background (Fitted (m0, m1) (c0, c1)) = Inr (min m0 m1, sqrt (if m1 < m0 then c1 else c0))"
  by (cases "m1 < m0") (simp_all add: cell_background_def min_def)

text \<open>
  C2. For a batch with at least one cell and, under a mask, at least five usable proteins:
  \<open>n_cells = 100\<close> positions are drawn among the cells of the batch, with replacement
  (each below the number of cells, 100 of them however few the cells); every sampled cell
  is fitted on its \<open>log1p\<close> counts and contributes the mean and the square root of the
  covariance of the component with the lower mean, or mean 0 and scale 0.05 when the fit
  does not converge; the batch mean is the arithmetic mean of the 100 means and the batch
  scale is the square root of the sum of the 100 squared scales, divided by 100. When the
  validation passes without a warning and every batch is empty, short of proteins or has
  fits that end in a value or a ConvergenceWarning, the routine returns two matrices with
  one row per protein and one column per batch; every row holds the batch values, so a
  column is constant, and the column of this batch holds its mean and its scale.
\<close>

theorem batch_prior_from_sampled_cells:
  assumes cells: "filter (\<lambda>c. c = b) (batch reg) \<noteq> []"
    and rows: "length (pro_exp reg) = length (batch reg)"
    and mask: "batch_mask reg = None \<or> 5 \<le> usable_proteins reg b"
    and fits: "\<forall>i<default_n_cells. fit_recovers (sampled_fit reg b i)"
  shows "default_n_cells = 100 \<and>
         length (choice (choice_draws reg b) (length (batch_rows reg b)) default_n_cells) = 100 \<and>
         (\<forall>c\<in>set (choice (choice_draws reg b) (length (batch_rows reg b)) default_n_cells).
            c < length (batch_rows reg b)) \<and>
         (\<exists>mus scales. length mus = 100 \<and> length scales = 100 \<and>
            (\<forall>i<100. cell_background (sampled_fit reg b i) = Inr (mus ! i, scales ! i)) \<and>
            batch_prior reg default_n_cells b =
              Inr (sum_list mus / 100, sqrt (sum_list (map (\<lambda>s. s\<^sup>2) scales)) / 100)) \<and>
         cell_background ConvergenceWarning = Inr (0, 0.05) \<and>
         (\<forall>m0 m1 c0 c1. 0 \<le> (if m1 < m0 then c1 else c0) \<longrightarrow>
            cell_background (Fitted (m0, m1) (c0, c1)) =
              Inr (min m0 m1, sqrt (if m1 < m0 then c1 else c0))) \<and>
         (\<forall>M S. get_totalvi_protein_priors self ad reg default_n_cells = Inr (M, S) \<longrightarrow>
            has_shape2 M (n_proteins reg) (n_cats reg) \<and>
            has_shape2 S (n_proteins reg) (n_cats reg) \<and>
            (\<forall>j<n_proteins reg. \<forall>c<n_cats reg.
               batch_prior reg default_n_cells c = Inr (M ! j ! c, S ! j ! c))) \<and>
         (validate_anndata self ad = Inr (a, []) \<and> b < n_cats reg \<and>
          (\<forall>c<n_cats reg. filter (\<lambda>x. x = c) (batch reg) = [] \<or>
                            (batch_mask reg \<noteq> None \<and> usable_proteins reg c < 5) \<or>
                            (\<forall>i<default_n_cells. fit_recovers (sampled_fit reg c i)))
          \<longrightarrow> (\<exists>M S mus scales.
                 get_totalvi_protein_priors self ad reg default_n_cells = Inr (M, S) \<and>
                 has_shape2 M (n_proteins reg) (n_cats reg) \<and>
                 has_shape2 S (n_proteins reg) (n_cats reg) \<and>
                 length mus = 100 \<and> length scales = 100 \<and>
                 (\<forall>i<100. cell_background (sampled_fit reg b i) = Inr (mus ! i, scales ! i)) \<and>
                 (\<forall>j<n_proteins reg.
                    M ! j ! b = sum_list mus / 100 \<and>
                    S ! j ! b = sqrt (sum_list (map (\<lambda>s. s\<^sup>2) scales)) / 100) \<and>
                 (\<forall>j<n_proteins reg. \<forall>c<n_cats reg.
                    M ! j ! c = M ! 0 ! c \<and> S ! j ! c = S ! 0 ! c)))"
proof -
  have ne: "batch_rows reg b \<noteq> []"
    using cells rows by (rule batch_rows_nonempty)
  have n: "default_n_cells > 0" "default_n_cells = 100" "real default_n_cells = 100"
    by (simp_all add: default_n_cells_def)
  from batch_prior_fitted[OF cells ne mask n(1) fits]
  have 1: "\<exists>mus scales. length mus = 100 \<and> length scales = 100 \<and>
            (\<forall>i<100. cell_background (sampled_fit reg b i) = Inr (mus ! i, scales ! i)) \<and>
            batch_prior reg default_n_cells b =
              Inr (sum_list mus / 100, sqrt (sum_list (map (\<lambda>s. s\<^sup>2) scales)) / 100)"
    unfolding n(3) unfolding n(2) .
  have 2: "length (choice (choice_draws reg b) (length (batch_rows reg b)) default_n_cells) = 100"
    by (simp add: choice_def n(2))
  have 3: "\<forall>c\<in>set (choice (choice_draws reg b) (length (batch_rows reg b)) default_n_cells).
            c < length (batch_rows reg b)"
    using ne by (auto simp: choice_def)
  have 4: "cell_background ConvergenceWarning = Inr (0, 0.05)"
    by (simp add: cell_background_def)
  have 5: "\<forall>m0 m1 c0 c1. 0 \<le> (if m1 < m0 then c1 else c0) \<longrightarrow>
            cell_background (Fitted (m0, m1) (c0, c1)) =
              Inr (min m0 m1, sqrt (if m1 < m0 then c1 else c0))"
    using cell_background_Fitted by blast
  have 6: "\<forall>M S. get_totalvi_protein_priors self ad reg default_n_cells = Inr (M, S) \<longrightarrow>
            has_shape2 M (n_proteins reg) (n_cats reg) \<and>
            has_shape2 S (n_proteins reg) (n_cats reg) \<and>
            (\<forall>j<n_proteins reg. \<forall>c<n_cats reg.
               batch_prior reg default_n_cells c = Inr (M ! j ! c, S ! j ! c))"
    using priors_matrices by blast
  have 7: "\<exists>M S mus scales.
                 get_totalvi_protein_priors self ad reg default_n_cells = Inr (M, S) \<and>
                 has_shape2 M (n_proteins reg) (n_cats reg) \<and>
                 has_shape2 S (n_proteins reg) (n_cats reg) \<and>
                 length mus = 100 \<and> length scales = 100 \<and>
                 (\<forall>i<100. cell_background (sampled_fit reg b i) = Inr (mus ! i, scales ! i)) \<and>
                 (\<forall>j<n_proteins reg.
                    M ! j ! b = sum_list mus / 100 \<and>
                    S ! j ! b = sqrt (sum_list (map (\<lambda>s. s\<^sup>2) scales)) / 100) \<and>
                 (\<forall>j<n_proteins reg. \<forall>c<n_cats reg.
                    M ! j ! c = M ! 0 ! c \<and> S ! j ! c = S ! 0 ! c)"
    if h: "validate_anndata self ad = Inr (a, []) \<and> b < n_cats reg \<and>
          (\<forall>c<n_cats reg. filter (\<lambda>x. x = c) (batch reg) = [] \<or>
                            (batch_mask reg \<noteq> None \<and> usable_proteins reg c < 5) \<or>
                            (\<forall>i<default_n_cells. fit_recovers (sampled_fit reg c i)))"
  proof -
    from h have v: "validate_anndata self ad = Inr (a, [])" and b: "b < n_cats reg"
      and o: "\<forall>c<n_cats reg. filter (\<lambda>x. x = c) (batch reg) = [] \<or>
                            (batch_mask reg \<noteq> None \<and> usable_proteins reg c < 5) \<or>
                            (\<forall>i<default_n_cells. fit_recovers (sampled_fit reg c i))"
      by blast+
    from degenerate_or_recovering_returns[OF v n(1) o]
    obtain M S where r: "get_totalvi_protein_priors self ad reg default_n_cells = Inr (M, S)"
      by blast
    from 1 obtain mus scales where m: "length mus = 100" "length scales = 100"
      "\<forall>i<100. cell_background (sampled_fit reg b i) = Inr (mus ! i, scales ! i)"
      and bp: "batch_prior reg default_n_cells b =
              Inr (sum_list mus / 100, sqrt (sum_list (map (\<lambda>s. s\<^sup>2) scales)) / 100)"
      by blast
    note pm = priors_matrices[OF r]
    have col: "\<forall>j<n_proteins reg.
                    M ! j ! b = sum_list mus / 100 \<and>
                    S ! j ! b = sqrt (sum_list (map (\<lambda>s. s\<^sup>2) scales)) / 100"
      using priors_entry[OF r _ b bp] by blast
    have const: "M ! j ! c = M ! 0 ! c \<and> S ! j ! c = S ! 0 ! c"
      if j: "j < n_proteins reg" and c: "c < n_cats reg" for j c
    proof -
      from j have z: "0 < n_proteins reg" by simp
      from pm j c have "batch_prior reg default_n_cells c = Inr (M ! j ! c, S ! j ! c)" by blast
      moreover from pm z c have "batch_prior reg default_n_cells c = Inr (M ! 0 ! c, S ! 0 ! c)"
        by blast
      ultimately show ?thesis by simp
    qed
    from r pm m col const show ?thesis by blast
  qed
  from n(2) 1 2 3 4 5 6 7 show ?thesis by blast
qed

theorem batch_prior_from_sampled_cells_witness:
  "(\<exists>M S. get_totalvi_protein_priors demo_model None demo_registry default_n_cells = Inr (M, S) \<and>
           has_shape2 M 6 4 \<and> has_shape2 S 6 4 \<and>
           M ! 0 ! 3 = 1 \<and> S ! 0 ! 3 = 1 / 5 \<and> M ! 5 ! 3 = 1 \<and> S ! 5 ! 3 = 1 / 5) \<and>
   batch_prior demo_registry default_n_cells 3 = Inr (1, 1 / 5) \<and>
   length (choice (choice_draws demo_registry 3) (length (batch_rows demo_registry 3)) default_n_cells) = 100 \<and>
   length (batch_rows demo_registry 3) = 1"
proof -
  have cells: "filter (\<lambda>c. c = 3) (batch demo_registry) \<noteq> []"
    by (simp add: demo_registry_def)
  have rows: "length (pro_exp demo_registry) = length (batch demo_registry)"
    by (simp add: demo_registry_def)
  have mask: "batch_mask demo_registry = None \<or> 5 \<le> usable_proteins demo_registry 3"
    by (simp add: demo_registry_def usable_proteins_def)
  have fit: "cell_background (sampled_fit demo_registry 3 i) = Inr (1, 2)" for i
    by (simp add: sampled_fit_def demo_registry_def cell_background_def)
  have fits: "\<forall>i<default_n_cells. fit_recovers (sampled_fit demo_registry 3 i)"
    by (simp add: fit_recovers_def fit)
  have rec: "fit_recovers (sampled_fit demo_registry c i)" for c i
    by (simp add: fit_recovers_def cell_background_def sampled_fit_def demo_registry_def)
  have np: "n_proteins demo_registry = 6" and nc: "n_cats demo_registry = 4"
    by (simp_all add: demo_registry_def)
  have h: "validate_anndata demo_model None = Inr (demo_adata, []) \<and> 3 < n_cats demo_registry \<and>
          (\<forall>c<n_cats demo_registry. filter (\<lambda>x. x = c) (batch demo_registry) = [] \<or>
                            (batch_mask demo_registry \<noteq> None \<and> usable_proteins demo_registry c < 5) \<or>
                            (\<forall>i<default_n_cells. fit_recovers (sampled_fit demo_registry c i)))"
    using rec by (simp add: demo_validate_none nc)
  note t = batch_prior_from_sampled_cells[OF cells rows mask fits, of demo_model None demo_adata]
  have sq: "sqrt 400 = 20"
    by (rule real_sqrt_unique) simp_all
  from t[THEN conjunct2, THEN conjunct2, THEN conjunct2, THEN conjunct1]
  obtain mus scales where m: "length mus = 100" "length scales = 100"
    and c: "\<forall>i<100. cell_background (sampled_fit demo_registry 3 i) = Inr (mus ! i, scales ! i)"
    and r: "batch_prior demo_registry default_n_cells 3 =
              Inr (sum_list mus / 100, sqrt (sum_list (map (\<lambda>s. s\<^sup>2) scales)) / 100)"
    by (elim exE conjE)
  have "mus = replicate 100 1"
    using m(1) c by (intro nth_equalityI) (simp_all add: fit)
  then have mu: "sum_list mus = 100" by (simp add: sum_list_replicate)
  have "scales = replicate 100 2"
    using m(2) c by (intro nth_equalityI) (simp_all add: fit)
  then have sc: "sum_list (map (\<lambda>s. s\<^sup>2) scales) = 400" by (simp add: sum_list_replicate)
  have a: "batch_prior demo_registry default_n_cells 3 = Inr (1, 1 / 5)"
    by (simp add: r mu sc sq)
  from t have b: "length (choice (choice_draws demo_registry 3) (length (batch_rows demo_registry 3))
                     default_n_cells) = 100"
    by blast
  have d: "length (batch_rows demo_registry 3) = 1"
    by (simp add: batch_rows_def demo_registry_def)
  from t[THEN conjunct2, THEN conjunct2, THEN conjunct2, THEN conjunct2, THEN conjunct2,
         THEN conjunct2, THEN conjunct2, rule_format, OF h]
  obtain M S mus' scales' where
    R: "get_totalvi_protein_priors demo_model None demo_registry default_n_cells = Inr (M, S)"
    and sh: "has_shape2 M (n_proteins demo_registry) (n_cats demo_registry)"
            "has_shape2 S (n_proteins demo_registry) (n_cats demo_registry)"
    and m': "length mus' = 100" "length scales' = 100"
    and c': "\<forall>i<100. cell_background (sampled_fit demo_registry 3 i) = Inr (mus' ! i, scales' ! i)"
    and col: "\<forall>j<n_proteins demo_registry.
                 M ! j ! 3 = sum_list mus' / 100 \<and>
                 S ! j ! 3 = sqrt (sum_list (map (\<lambda>s. s\<^sup>2) scales')) / 100"
    by (elim exE conjE)
  have "mus' = replicate 100 1"
    using m'(1) c' by (intro nth_equalityI) (simp_all add: fit)
  then have mu': "sum_list mus' = 100" by (simp add: sum_list_replicate)
  have "scales' = replicate 100 2"
    using m'(2) c' by (intro nth_equalityI) (simp_all add: fit)
  then have sc': "sum_list (map (\<lambda>s. s\<^sup>2) scales') = 400" by (simp add: sum_list_replicate)
  have j0: "(0::nat) < n_proteins demo_registry" and j5: "(5::nat) < n_proteins demo_registry"
    by (simp_all add: np)
  have e0: "M ! 0 ! 3 = 1 \<and> S ! 0 ! 3 = 1 / 5"
    using col[rule_format, OF j0] by (simp add: mu' sc' sq)
  have e5: "M ! 5 ! 3 = 1 \<and> S ! 5 ! 3 = 1 / 5"
    using col[rule_format, OF j5] by (simp add: mu' sc' sq)
  have "\<exists>M S. get_totalvi_protein_priors demo_model None demo_registry default_n_cells = Inr (M, S) \<and>
           has_shape2 M 6 4 \<and> has_shape2 S 6 4 \<and>
           M ! 0 ! 3 = 1 \<and> S ! 0 ! 3 = 1 / 5 \<and> M ! 5 ! 3 = 1 \<and> S ! 5 ! 3 = 1 / 5"
    using R sh e0 e5 unfolding np nc by blast
  with a b d show ?thesis by blast
qed

subsection \<open>The normalized protein expression of a cell\<close>

lemma has_shape3_D:
  assumes "has_shape3 t a b c" "s < a" "i < b"
  shows "length t = a" "length (t ! s) = b" "length (t ! s ! i) = c"
  using assms by (auto simp: has_shape3_def has_shape2_def list_all_length)

lemma has_shape3_I:
  assumes "length t = a" "\<And>s. s < a \<Longrightarrow> length (t ! s) = b"
    "\<And>s i. s < a \<Longrightarrow> i < b \<Longrightarrow> length (t ! s ! i) = c"
  shows "has_shape3 t a b c"
  using assms by (auto simp: has_shape3_def has_shape2_def list_all_length)

lemma tmap_shape: "has_shape3 t a b c \<Longrightarrow> has_shape3 (tmap f t) a b c"
  by (auto simp: has_shape3_def has_shape2_def list_all_length tmap_def)

lemma tmap_nth:
  "has_shape3 t a b c \<Longrightarrow> s < a \<Longrightarrow> i < b \<Longrightarrow> j < c \<Longrightarrow> tmap f t ! s ! i ! j = f (t ! s ! i ! j)"
  by (auto simp: has_shape3_def has_shape2_def list_all_length tmap_def)

lemma tmap2_shape:
  "has_shape3 x a b c \<Longrightarrow> has_shape3 y a b c \<Longrightarrow> has_shape3 (tmap2 f x y) a b c"
  by (auto simp: has_shape3_def has_shape2_def list_all_length tmap2_def)

lemma tmap2_nth:
  "has_shape3 x a b c \<Longrightarrow> has_shape3 y a b c \<Longrightarrow> s < a \<Longrightarrow> i < b \<Longrightarrow> j < c \<Longrightarrow>
   tmap2 f x y ! s ! i ! j = f (x ! s ! i ! j) (y ! s ! i ! j)"
  by (auto simp: has_shape3_def has_shape2_def list_all_length tmap2_def)

lemma bernoulli_shape: "has_shape3 t a b c \<Longrightarrow> has_shape3 (bernoulli_sample u t) a b c"
  by (auto simp: has_shape3_def has_shape2_def list_all_length bernoulli_sample_def nth_enumerate_eq)

lemma bernoulli_nth:
  "has_shape3 t a b c \<Longrightarrow> s < a \<Longrightarrow> i < b \<Longrightarrow> j < c \<Longrightarrow>
   bernoulli_sample u t ! s ! i ! j = (if u s i j < t ! s ! i ! j then 1 else 0)"
  by (auto simp: has_shape3_def has_shape2_def list_all_length bernoulli_sample_def nth_enumerate_eq)

lemma last_axis_nth:
  "has_shape3 t a b c \<Longrightarrow> s < a \<Longrightarrow> i < b \<Longrightarrow> last_axis f t ! s ! i = f (t ! s ! i)"
  by (auto simp: has_shape3_def has_shape2_def list_all_length last_axis_def)

lemma last_axis_shape:
  assumes "has_shape3 t a b c" "\<And>v. length v = c \<Longrightarrow> length (f v) = d"
  shows "has_shape3 (last_axis f t) a b d"
  using assms by (auto simp: has_shape3_def has_shape2_def list_all_length last_axis_def)

lemma protein_value_unscaled:
  "protein_value self kw protein_mask ky py =
     last_axis (select protein_mask)
       (if scale_protein kw then last_axis normalize_l1 (unscaled_value self kw ky py)
        else unscaled_value self kw ky py)"
  by (simp add: protein_value_def unscaled_value_def Let_def)

lemma unscaled_value_shape:
  assumes "has_shape3 (py_mixing py) a b c" "has_shape3 (py_rate_fore py) a b c"
    "has_shape3 (py_rate_back py) a b c"
  shows "has_shape3 (unscaled_value self kw ky py) a b c"
  using assms
  by (simp add: unscaled_value_def Let_def tmap_shape tmap2_shape bernoulli_shape)

lemma unscaled_value_nth:
  assumes m: "has_shape3 (py_mixing py) a b c" and f: "has_shape3 (py_rate_fore py) a b c"
    and k: "has_shape3 (py_rate_back py) a b c" and s: "s < a" and i: "i < b" and j: "j < c"
  shows "unscaled_value self kw ky py ! s ! i ! j =
           py_rate_fore py ! s ! i ! j *
             (1 - mixing_weight self kw ky s i j (py_mixing py ! s ! i ! j)) +
           (if include_protein_background kw
            then py_rate_back py ! s ! i ! j *
                   mixing_weight self kw ky s i j (py_mixing py ! s ! i ! j)
            else 0)"
proof -
  let ?sig = "tmap (\<lambda>x. 1 / (1 + exp (- x))) (py_mixing py)"
  let ?pm = "if sample_protein_mixing kw then bernoulli_sample (uniform_draws self ky) ?sig else ?sig"
  have sh: "has_shape3 ?sig a b c" using m by (rule tmap_shape)
  have shpm: "has_shape3 ?pm a b c" using sh by (simp add: bernoulli_shape)
  have sg: "?sig ! s ! i ! j = sigmoid (py_mixing py ! s ! i ! j)"
    using tmap_nth[OF m s i j] by (simp add: sigmoid_def)
  have pm: "?pm ! s ! i ! j = mixing_weight self kw ky s i j (py_mixing py ! s ! i ! j)"
    using bernoulli_nth[OF sh s i j] sg by (simp add: mixing_weight_def)
  have pv: "tmap2 (\<lambda>f m. f * (1 - m)) (py_rate_fore py) ?pm ! s ! i ! j =
              py_rate_fore py ! s ! i ! j * (1 - ?pm ! s ! i ! j)"
    using tmap2_nth[OF f shpm s i j] .
  have shpv: "has_shape3 (tmap2 (\<lambda>f m. f * (1 - m)) (py_rate_fore py) ?pm) a b c"
    using f shpm by (rule tmap2_shape)
  have bk: "tmap2 (*) (py_rate_back py) ?pm ! s ! i ! j = py_rate_back py ! s ! i ! j * ?pm ! s ! i ! j"
    using tmap2_nth[OF k shpm s i j] .
  have shbk: "has_shape3 (tmap2 (*) (py_rate_back py) ?pm) a b c"
    using k shpm by (rule tmap2_shape)
  have sum: "tmap2 (+) (tmap2 (\<lambda>f m. f * (1 - m)) (py_rate_fore py) ?pm)
               (tmap2 (*) (py_rate_back py) ?pm) ! s ! i ! j =
             py_rate_fore py ! s ! i ! j * (1 - ?pm ! s ! i ! j) +
             py_rate_back py ! s ! i ! j * ?pm ! s ! i ! j"
    using tmap2_nth[OF shpv shbk s i j] pv bk by simp
  show ?thesis
  proof (cases "include_protein_background kw")
    case True
    then have "unscaled_value self kw ky py =
                 tmap2 (+) (tmap2 (\<lambda>f m. f * (1 - m)) (py_rate_fore py) ?pm)
                   (tmap2 (*) (py_rate_back py) ?pm)"
      by (simp add: unscaled_value_def Let_def)
    with True sum pm show ?thesis by simp
  next
    case False
    then have "unscaled_value self kw ky py = tmap2 (\<lambda>f m. f * (1 - m)) (py_rate_fore py) ?pm"
      by (simp add: unscaled_value_def Let_def)
    with False pv pm show ?thesis by simp
  qed
qed

lemma unscaled_value_row:
  assumes m: "has_shape3 (py_mixing py) a b c" and f: "has_shape3 (py_rate_fore py) a b c"
    and k: "has_shape3 (py_rate_back py) a b c" and s: "s < a" and i: "i < b"
  shows "unscaled_value self kw ky py ! s ! i = unscaled_row self kw ky py s i"
proof (rule nth_equalityI)
  have l: "length (py_mixing py ! s ! i) = c" using has_shape3_D[OF m s i] by simp
  show "length (unscaled_value self kw ky py ! s ! i) = length (unscaled_row self kw ky py s i)"
    using has_shape3_D(3)[OF unscaled_value_shape[OF m f k] s i] l
    by (simp add: unscaled_row_def)
  fix j assume "j < length (unscaled_value self kw ky py ! s ! i)"
  then have j: "j < c"
    using has_shape3_D(3)[OF unscaled_value_shape[OF m f k] s i, of self kw ky] by simp
  show "unscaled_value self kw ky py ! s ! i ! j = unscaled_row self kw ky py s i ! j"
    using unscaled_value_nth[OF m f k s i j] j l by (simp add: unscaled_row_def)
qed

lemma protein_value_row:
  assumes m: "has_shape3 (py_mixing py) a b c" and f: "has_shape3 (py_rate_fore py) a b c"
    and k: "has_shape3 (py_rate_back py) a b c" and s: "s < a" and i: "i < b"
  shows "protein_value self kw protein_mask ky py ! s ! i =
           select protein_mask
             (if scale_protein kw then normalize_l1 (unscaled_row self kw ky py s i)
              else unscaled_row self kw ky py s i)"
proof -
  note u = unscaled_value_shape[OF m f k, of self kw ky]
  have n: "has_shape3 (last_axis normalize_l1 (unscaled_value self kw ky py)) a b c"
    using u by (rule last_axis_shape) (simp add: normalize_l1_def)
  show ?thesis
    using last_axis_nth[OF u s i] last_axis_nth[OF n s i] unscaled_value_row[OF m f k s i]
    by (simp add: protein_value_unscaled)
qed

lemma protein_value_shape:
  assumes m: "has_shape3 (py_mixing py) a b (length names)"
    and f: "has_shape3 (py_rate_fore py) a b (length names)"
    and k: "has_shape3 (py_rate_back py) a b (length names)"
  shows "has_shape3 (protein_value self kw protein_mask ky py) a b (length (select protein_mask names))"
proof -
  note u = unscaled_value_shape[OF m f k, of self kw ky]
  have n: "has_shape3 (last_axis normalize_l1 (unscaled_value self kw ky py)) a b (length names)"
    using u by (rule last_axis_shape) (simp add: normalize_l1_def)
  show ?thesis
    unfolding protein_value_unscaled
    using u n by (auto intro!: has_shape3_last_axis_select)
qed

lemma fold_add_shape_nth:
  assumes "has_shape3 acc a b c" "\<forall>v\<in>set vs. has_shape3 v a b c"
  shows "has_shape3 (fold (\<lambda>v x. tmap2 (+) x v) vs acc) a b c \<and>
         (\<forall>s<a. \<forall>i<b. \<forall>j<c.
            fold (\<lambda>v x. tmap2 (+) x v) vs acc ! s ! i ! j =
              acc ! s ! i ! j + (\<Sum>v\<leftarrow>vs. v ! s ! i ! j))"
  using assms
proof (induction vs arbitrary: acc)
  case Nil
  then show ?case by simp
next
  case (Cons v vs)
  have v: "has_shape3 v a b c" using Cons.prems(2) by simp
  have sh: "has_shape3 (tmap2 (+) acc v) a b c"
    using Cons.prems(1) v by (rule tmap2_shape)
  have rest: "\<forall>w\<in>set vs. has_shape3 w a b c" using Cons.prems(2) by simp
  note ih = Cons.IH[OF sh rest]
  have "fold (\<lambda>v x. tmap2 (+) x v) (v # vs) acc ! s ! i ! j =
          acc ! s ! i ! j + (\<Sum>w\<leftarrow>v # vs. w ! s ! i ! j)"
    if "s < a" "i < b" "j < c" for s i j
    using ih that tmap2_nth[OF Cons.prems(1) v that] by (simp add: add.assoc)
  with ih show ?case by simp
qed

lemma py_scale_sum_fold:
  "py_scale_sum self kw protein_mask k t pbs acc =
     fold (\<lambda>v x. tmap2 (+) x v)
          (map (\<lambda>(p, b). protein_value self kw protein_mask (k, p)
                             (gen_py (module_forward self (k, p) t (n_samples kw) b))) pbs)
          acc"
  by (simp add: py_scale_sum_def fold_map comp_def case_prod_unfold)

lemma map_enumerate_upt:
  "map (\<lambda>(p, b). f p b) (enumerate 0 xs) = map (\<lambda>p. f p (xs ! p)) [0..<length xs]"
  by (rule nth_equalityI) (simp_all add: nth_enumerate_eq)

lemma sum_list_upt_sum: "(\<Sum>p\<leftarrow>[0..<n]. f p) = (\<Sum>p<n. f p)"
  by (simp add: interv_sum_list_conv_sum_set_nat atLeast0LessThan)

lemma set_select_subset: "set (select m v) \<subseteq> set v"
proof (cases m)
  case SliceAll
  then show ?thesis by simp
next
  case (BoolMask bs)
  then show ?thesis by (auto dest: set_zip_rightD)
qed

lemma zeros_shape_nth:
  assumes y: "has_shape2 y b (length names)"
  shows "has_shape3 (stack n (map (select msk) (zeros_like y))) (if n > 1 then n else 1) b
           (length (select msk names))"
    and "s < (if n > 1 then n else 1) \<Longrightarrow> i < b \<Longrightarrow> j < length (select msk names) \<Longrightarrow>
         stack n (map (select msk) (zeros_like y)) ! s ! i ! j = 0"
proof -
  have z: "has_shape2 (zeros_like y) b (length names)"
    using y by (auto simp: has_shape2_def zeros_like_def list_all_iff)
  have zs: "has_shape2 (map (select msk) (zeros_like y)) b (length (select msk names))"
    using z by (rule has_shape2_select)
  show "has_shape3 (stack n (map (select msk) (zeros_like y))) (if n > 1 then n else 1) b
           (length (select msk names))"
    using zs by (simp add: has_shape3_def stack_def list_all_iff)
  assume s: "s < (if n > 1 then n else 1)" and i: "i < b" and j: "j < length (select msk names)"
  have r: "stack n (map (select msk) (zeros_like y)) ! s ! i = select msk (zeros_like y ! i)"
    using s i z by (auto simp: stack_def has_shape2_def)
  have "length (select msk (zeros_like y ! i)) = length (select msk names)"
    using z i by (intro length_select_cong) (auto simp: has_shape2_def list_all_length)
  with j have "select msk (zeros_like y ! i) ! j \<in> set (select msk (zeros_like y ! i))"
    by simp
  then have "select msk (zeros_like y ! i) ! j \<in> set (zeros_like y ! i)"
    by (rule subsetD[OF set_select_subset])
  moreover have "zeros_like y ! i = map (\<lambda>_. 0) (y ! i)"
    using y i by (simp add: zeros_like_def has_shape2_def)
  ultimately have "select msk (zeros_like y ! i) ! j = 0"
    by auto
  then show "stack n (map (select msk) (zeros_like y)) ! s ! i ! j = 0"
    by (simp add: r)
qed

lemma py_ok_D:
  assumes "py_ok self kw tb k t" "p < length tb"
  shows "has_shape3 (py_mixing (gen_py (module_forward self (k, p) t (n_samples kw) (tb ! p))))
            (sample_slices kw) (length (PROTEIN_EXP_KEY t)) (length (protein_column_names self))"
    and "has_shape3 (py_rate_fore (gen_py (module_forward self (k, p) t (n_samples kw) (tb ! p))))
            (sample_slices kw) (length (PROTEIN_EXP_KEY t)) (length (protein_column_names self))"
    and "has_shape3 (py_rate_back (gen_py (module_forward self (k, p) t (n_samples kw) (tb ! p))))
            (sample_slices kw) (length (PROTEIN_EXP_KEY t)) (length (protein_column_names self))"
proof -
  have "(p, tb ! p) \<in> set (enumerate 0 tb)"
    using assms(2) by (simp add: in_set_enumerate_eq)
  with assms(1) show
    "has_shape3 (py_mixing (gen_py (module_forward self (k, p) t (n_samples kw) (tb ! p))))
            (sample_slices kw) (length (PROTEIN_EXP_KEY t)) (length (protein_column_names self))"
    "has_shape3 (py_rate_fore (gen_py (module_forward self (k, p) t (n_samples kw) (tb ! p))))
            (sample_slices kw) (length (PROTEIN_EXP_KEY t)) (length (protein_column_names self))"
    "has_shape3 (py_rate_back (gen_py (module_forward self (k, p) t (n_samples kw) (tb ! p))))
            (sample_slices kw) (length (PROTEIN_EXP_KEY t)) (length (protein_column_names self))"
    unfolding py_ok_def list_all_iff by auto
qed

lemma py_scale_minibatch_nth:
  assumes ok: "py_ok self kw tb k t"
  shows "has_shape3 (py_scale_minibatch self kw protein_mask tb k t) (sample_slices kw)
           (length (PROTEIN_EXP_KEY t)) (length (select protein_mask (protein_column_names self)))"
    and "s < sample_slices kw \<Longrightarrow> i < length (PROTEIN_EXP_KEY t) \<Longrightarrow>
         j < length (select protein_mask (protein_column_names self)) \<Longrightarrow>
         py_scale_minibatch self kw protein_mask tb k t ! s ! i ! j =
           (\<Sum>p<length tb. protein_value self kw protein_mask (k, p)
                  (gen_py (module_forward self (k, p) t (n_samples kw) (tb ! p))) ! s ! i ! j)
           / real (length tb)"
proof -
  let ?V = "\<lambda>p b. protein_value self kw protein_mask (k, p)
                  (gen_py (module_forward self (k, p) t (n_samples kw) b))"
  let ?vs = "map (\<lambda>p. ?V p (tb ! p)) [0..<length tb]"
  let ?acc = "stack (n_samples kw) (map (select protein_mask) (zeros_like (PROTEIN_EXP_KEY t)))"
  let ?a = "sample_slices kw" and ?b = "length (PROTEIN_EXP_KEY t)"
  let ?c = "length (select protein_mask (protein_column_names self))"
  have y: "has_shape2 (PROTEIN_EXP_KEY t) ?b (length (protein_column_names self))"
    using ok by (simp add: py_ok_def)
  have acc: "has_shape3 ?acc ?a ?b ?c"
    using zeros_shape_nth(1)[OF y] by (simp add: sample_slices_def)
  have acc0: "?acc ! s ! i ! j = 0" if "s < ?a" "i < ?b" "j < ?c" for s i j
    using zeros_shape_nth(2)[OF y, of s "n_samples kw" i j protein_mask] that
    by (simp add: sample_slices_def)
  have vs: "\<forall>v\<in>set ?vs. has_shape3 v ?a ?b ?c"
    using py_ok_D[OF ok] by (auto intro!: protein_value_shape)
  have sum: "py_scale_sum self kw protein_mask k t (enumerate 0 tb) ?acc =
               fold (\<lambda>v x. tmap2 (+) x v) ?vs ?acc"
    by (simp add: py_scale_sum_fold map_enumerate_upt)
  note f = fold_add_shape_nth[OF acc vs]
  have mb: "py_scale_minibatch self kw protein_mask tb k t =
              tmap (\<lambda>x. x / real (length tb)) (fold (\<lambda>v x. tmap2 (+) x v) ?vs ?acc)"
    by (simp add: py_scale_minibatch_def Let_def sum)
  show "has_shape3 (py_scale_minibatch self kw protein_mask tb k t) ?a ?b ?c"
    using f by (simp add: mb tmap_shape)
  assume s: "s < ?a" and i: "i < ?b" and j: "j < ?c"
  have "fold (\<lambda>v x. tmap2 (+) x v) ?vs ?acc ! s ! i ! j = (\<Sum>v\<leftarrow>?vs. v ! s ! i ! j)"
    using f s i j acc0 by simp
  also have "\<dots> = (\<Sum>p<length tb. ?V p (tb ! p) ! s ! i ! j)"
    by (simp add: comp_def sum_list_upt_sum)
  finally show "py_scale_minibatch self kw protein_mask tb k t ! s ! i ! j =
           (\<Sum>p<length tb. ?V p (tb ! p) ! s ! i ! j) / real (length tb)"
    using f s i j by (simp add: mb tmap_nth[where a = ?a and b = ?b and c = ?c])
qed

subsection \<open>Scaled protein expression\<close>

lemma select_map: "select m (map f v) = map f (select m v)"
proof (cases m)
  case SliceAll
  then show ?thesis by simp
next
  case (BoolMask bs)
  have "map snd (filter fst (zip bs (map f v))) = map f (map snd (filter fst (zip bs v)))"
  proof (induction bs arbitrary: v)
    case Nil
    then show ?case by simp
  next
    case (Cons b bs)
    then show ?case by (cases v) simp_all
  qed
  with BoolMask show ?thesis by simp
qed

lemma sum_list_map_divide: "(\<Sum>x\<leftarrow>v. x / c) = sum_list v / (c :: real)"
  by (induction v) (simp_all add: add_divide_distrib)

lemma sum_list_select_bounds:
  assumes "\<forall>x\<in>set v. (0 :: real) \<le> x"
  shows "0 \<le> sum_list (select m v)" and "sum_list (select m v) \<le> sum_list v"
proof -
  have a: "0 \<le> sum_list (map snd (filter fst (zip bs v))) \<and>
           sum_list (map snd (filter fst (zip bs v))) \<le> sum_list v" for bs
    using assms
  proof (induction bs arbitrary: v)
    case Nil
    then show ?case by (simp add: sum_list_nonneg)
  next
    case (Cons b bs)
    show ?case
    proof (cases v)
      case Nil
      then show ?thesis by simp
    next
      case (Cons x xs)
      with Cons.prems have x: "0 \<le> x" and xs: "\<forall>x\<in>set xs. 0 \<le> x" by simp_all
      from Cons.IH[OF xs] x Cons show ?thesis by (cases b) simp_all
    qed
  qed
  show "0 \<le> sum_list (select m v)"
    using a assms by (cases m) (simp_all add: sum_list_nonneg)
  show "sum_list (select m v) \<le> sum_list v"
    using a by (cases m) simp_all
qed

lemma normalize_l1_nonneg:
  assumes nn: "\<forall>x\<in>set v. 0 \<le> x" and big: "1 / 10 ^ 12 \<le> sum_list v"
  shows "normalize_l1 v = map (\<lambda>x. x / sum_list v) v"
proof -
  have "map abs v = v" using nn by (simp add: map_idI)
  then show ?thesis using big by (simp add: normalize_l1_def max_def)
qed

lemma sum_list_select_normalize_l1:
  assumes nn: "\<forall>x\<in>set v. 0 \<le> x" and big: "1 / 10 ^ 12 \<le> sum_list v"
  shows "sum_list (select m (normalize_l1 v)) = sum_list (select m v) / sum_list v"
  by (simp add: normalize_l1_nonneg[OF nn big] select_map sum_list_map_divide)

lemma scaled_row_sum:
  assumes ok: "py_ok self kw tb k t" and s: "s < sample_slices kw"
    and i: "i < length (PROTEIN_EXP_KEY t)"
  shows "sum_list (py_scale_minibatch self kw protein_mask tb k t ! s ! i) =
           (\<Sum>p<length tb. sum_list (protein_value self kw protein_mask (k, p)
                  (gen_py (module_forward self (k, p) t (n_samples kw) (tb ! p))) ! s ! i))
           / real (length tb)"
proof -
  let ?V = "\<lambda>p. protein_value self kw protein_mask (k, p)
                  (gen_py (module_forward self (k, p) t (n_samples kw) (tb ! p))) ! s ! i"
  let ?c = "length (select protein_mask (protein_column_names self))"
  let ?R = "py_scale_minibatch self kw protein_mask tb k t ! s ! i"
  have lR: "length ?R = ?c"
    using has_shape3_D(3)[OF py_scale_minibatch_nth(1)[OF ok] s i] .
  have lV: "length (?V p) = ?c" if "p < length tb" for p
    using has_shape3_D(3)[OF protein_value_shape[OF py_ok_D[OF ok that]] s i] .
  have "sum_list ?R = (\<Sum>j<?c. ?R ! j)"
    by (simp add: sum_list_sum_nth lR atLeast0LessThan)
  also have "\<dots> = (\<Sum>j<?c. (\<Sum>p<length tb. ?V p ! j) / real (length tb))"
    using py_scale_minibatch_nth(2)[OF ok s i] by simp
  also have "\<dots> = (\<Sum>j<?c. \<Sum>p<length tb. ?V p ! j) / real (length tb)"
    by (simp add: sum_divide_distrib)
  also have "(\<Sum>j<?c. \<Sum>p<length tb. ?V p ! j) = (\<Sum>p<length tb. \<Sum>j<?c. ?V p ! j)"
    by (rule sum.swap)
  also have "\<dots> = (\<Sum>p<length tb. sum_list (?V p))"
    by (rule sum.cong) (simp_all add: sum_list_sum_nth lV atLeast0LessThan)
  finally show ?thesis .
qed


end
